theory Spec2Isabelle
  imports
    Main
    "HOL-Library.Word"
    "HOL-Library.Char_ord"
    "HOL-Library.List_Lexorder"
    "HOL-Library.Multiset"
    "HOL-Library.Signed_Division"
    "HOL-Library.Code_Target_Numeral"
begin

section \<open>KernelView-Go: the fact collector of package gather and its command line\<close>

text \<open>
  The Go program gathers host facts with a fixed set of probes, run as goroutines that
  write into one \<open>SystemInfo\<close> struct, and prints them. This theory embeds
  \<^verbatim>\<open>gather.go\<close> and \<^verbatim>\<open>main.go\<close>: Go strings are byte lists
  (\<open>string\<close>), Go's \<open>int\<close> is \<open>int\<close> (64-bit range checks written out where the
  source depends on them), every call into the operating system or a library is a field of
  the record \<open>World\<close>, and a run-time panic is the left summand of \<open>panic + 'a\<close>.
\<close>

subsection \<open>Package strings\<close>

definition HasPrefix :: "string \<Rightarrow> string \<Rightarrow> bool" where
  "HasPrefix s p \<longleftrightarrow> take (length p) s = p"

definition HasSuffix :: "string \<Rightarrow> string \<Rightarrow> bool" where
  "HasSuffix s p \<longleftrightarrow> length p \<le> length s \<and> drop (length s - length p) s = p"

definition TrimSuffix :: "string \<Rightarrow> string \<Rightarrow> string" where
  "TrimSuffix s p = (if HasSuffix s p then take (length s - length p) s else s)"

fun Contains :: "string \<Rightarrow> string \<Rightarrow> bool" where
  "Contains [] sub = (sub = [])"
| "Contains (c # cs) sub = (HasPrefix (c # cs) sub \<or> Contains cs sub)"

fun Join :: "string list \<Rightarrow> string \<Rightarrow> string" where
  "Join [] sep = []"
| "Join [x] sep = x"
| "Join (x # y # ys) sep = x @ sep @ Join (y # ys) sep"

text \<open>
  \<^verbatim>\<open>strings.LastIndex(s, "/")\<close> for a one-byte separator: the index of its last
  occurrence, or \<open>-1\<close>.
\<close>

fun LastIndexByte :: "string \<Rightarrow> char \<Rightarrow> int" where
  "LastIndexByte [] c = -1"
| "LastIndexByte (x # xs) c =
     (let r = LastIndexByte xs c in
      if r \<ge> 0 then r + 1 else if x = c then 0 else -1)"

text \<open>
  \<^verbatim>\<open>strings.Split(s, sep)\<close> for a non-empty separator, which is what every call
  of the source passes: the pieces between the leftmost non-overlapping occurrences of
  \<open>sep\<close>; the result is never empty.
\<close>

function SplitAcc :: "string \<Rightarrow> string \<Rightarrow> string \<Rightarrow> string list" where
  "SplitAcc sep cur s =
     (if s = [] then [rev cur]
      else if sep \<noteq> [] \<and> HasPrefix s sep then rev cur # SplitAcc sep [] (drop (length sep) s)
      else SplitAcc sep (hd s # cur) (tl s))"
  by pat_completeness auto
termination
  by (relation "measure (\<lambda>(sep, cur, s). length s)") auto

declare SplitAcc.simps [simp del]

definition Split :: "string \<Rightarrow> string \<Rightarrow> string list" where
  "Split s sep = SplitAcc sep [] s"

text \<open>
  \<^verbatim>\<open>strings.Replace(s, old, new, 1)\<close>: the first occurrence of \<open>old\<close> replaced.
\<close>

fun Replace1 :: "string \<Rightarrow> string \<Rightarrow> string \<Rightarrow> string" where
  "Replace1 [] old new = (if old = [] then new else [])"
| "Replace1 (c # cs) old new =
     (if HasPrefix (c # cs) old then new @ drop (length old) (c # cs)
      else c # Replace1 cs old new)"

text \<open>
  White space is what \<^verbatim>\<open>unicode.IsSpace\<close> accepts, as UTF-8 byte sequences: the six
  ASCII ones, U+0085, U+00A0, U+1680, U+2000 to U+200A, U+2028, U+2029, U+202F, U+205F and
  U+3000. Each sequence starts with a byte that is not a UTF-8 continuation byte, so
  matching the sequences against the bytes agrees with Go's rune-by-rune decoding.
\<close>

definition space_runes :: "string list" where
  "space_runes =
     [[CHR 0x09], [CHR 0x0A], [CHR 0x0B], [CHR 0x0C], [CHR 0x0D], [CHR 0x20],
      [CHR 0xC2, CHR 0x85], [CHR 0xC2, CHR 0xA0], [CHR 0xE1, CHR 0x9A, CHR 0x80],
      [CHR 0xE2, CHR 0x80, CHR 0x80], [CHR 0xE2, CHR 0x80, CHR 0x81],
      [CHR 0xE2, CHR 0x80, CHR 0x82], [CHR 0xE2, CHR 0x80, CHR 0x83],
      [CHR 0xE2, CHR 0x80, CHR 0x84], [CHR 0xE2, CHR 0x80, CHR 0x85],
      [CHR 0xE2, CHR 0x80, CHR 0x86], [CHR 0xE2, CHR 0x80, CHR 0x87],
      [CHR 0xE2, CHR 0x80, CHR 0x88], [CHR 0xE2, CHR 0x80, CHR 0x89],
      [CHR 0xE2, CHR 0x80, CHR 0x8A], [CHR 0xE2, CHR 0x80, CHR 0xA8],
      [CHR 0xE2, CHR 0x80, CHR 0xA9], [CHR 0xE2, CHR 0x80, CHR 0xAF],
      [CHR 0xE2, CHR 0x81, CHR 0x9F], [CHR 0xE3, CHR 0x80, CHR 0x80]]"

definition space_prefix :: "string list \<Rightarrow> string \<Rightarrow> string option" where
  "space_prefix rs s = find (\<lambda>r. r \<noteq> [] \<and> HasPrefix s r) rs"

function trim_prefixes :: "string list \<Rightarrow> string \<Rightarrow> string" where
  "trim_prefixes rs s =
     (case space_prefix rs s of
        None \<Rightarrow> s
      | Some r \<Rightarrow> trim_prefixes rs (drop (length r) s))"
  by pat_completeness auto
termination
proof (relation "measure (\<lambda>(rs, s). length s)")
  fix rs :: "string list" and s r :: string
  assume "space_prefix rs s = Some r"
  then have "r \<noteq> []" and "take (length r) s = r"
    by (auto simp: space_prefix_def HasPrefix_def find_Some_iff)
  then have "s \<noteq> []" by auto
  with \<open>r \<noteq> []\<close> show "((rs, drop (length r) s), (rs, s)) \<in> measure (\<lambda>(rs, s). length s)"
    by simp
qed simp

declare trim_prefixes.simps [simp del]

definition TrimSpace :: "string \<Rightarrow> string" where
  "TrimSpace s = rev (trim_prefixes (map rev space_runes) (rev (trim_prefixes space_runes s)))"

text \<open>\<^verbatim>\<open>strings.Fields\<close>: the maximal runs of bytes that hold no white space.\<close>

function FieldsAcc :: "string \<Rightarrow> string \<Rightarrow> string list" where
  "FieldsAcc cur s =
     (if s = [] then (if cur = [] then [] else [rev cur])
      else case space_prefix space_runes s of
             Some r \<Rightarrow> (if cur = [] then [] else [rev cur]) @ FieldsAcc [] (drop (length r) s)
           | None \<Rightarrow> FieldsAcc (hd s # cur) (tl s))"
  by pat_completeness auto
termination
proof (relation "measure (\<lambda>(cur, s). length s)")
  fix cur s r :: string
  assume "s \<noteq> []" and "space_prefix space_runes s = Some r"
  then have "r \<noteq> []"
    by (auto simp: space_prefix_def find_Some_iff)
  with \<open>s \<noteq> []\<close> show "(([], drop (length r) s), (cur, s)) \<in> measure (\<lambda>(cur, s). length s)"
    by simp
qed auto

declare FieldsAcc.simps [simp del]

definition Fields :: "string \<Rightarrow> string list" where
  "Fields s = FieldsAcc [] s"

subsection \<open>ASCII letters; the Unicode tables stay with the library\<close>

definition isASCII :: "string \<Rightarrow> bool" where
  "isASCII s \<longleftrightarrow> list_all (\<lambda>c. (of_char c :: nat) < 128) s"

definition isDigit :: "char \<Rightarrow> bool" where
  "isDigit c \<longleftrightarrow> 48 \<le> (of_char c :: nat) \<and> (of_char c :: nat) \<le> 57"

definition isLower :: "char \<Rightarrow> bool" where
  "isLower c \<longleftrightarrow> 97 \<le> (of_char c :: nat) \<and> (of_char c :: nat) \<le> 122"

definition isUpper :: "char \<Rightarrow> bool" where
  "isUpper c \<longleftrightarrow> 65 \<le> (of_char c :: nat) \<and> (of_char c :: nat) \<le> 90"

definition toLowerByte :: "char \<Rightarrow> char" where
  "toLowerByte c = (if isUpper c then char_of ((of_char c :: nat) + 32) else c)"

definition toUpperByte :: "char \<Rightarrow> char" where
  "toUpperByte c = (if isLower c then char_of ((of_char c :: nat) - 32) else c)"

text \<open>
  \<^verbatim>\<open>isSeparator\<close> of package strings on an ASCII byte: letters, digits and the
  underscore are not separators, everything else is.
\<close>

definition isSeparator :: "char \<Rightarrow> bool" where
  "isSeparator c \<longleftrightarrow> \<not> (isDigit c \<or> isLower c \<or> isUpper c \<or> c = CHR ''_'')"

fun TitleFrom :: "char \<Rightarrow> string \<Rightarrow> string" where
  "TitleFrom prev [] = []"
| "TitleFrom prev (c # cs) =
     (if isSeparator prev then toUpperByte c else c) # TitleFrom c cs"

subsection \<open>Package strconv\<close>

definition digit_char :: "nat \<Rightarrow> char" where
  "digit_char d = char_of (48 + d)"

function digits_nat :: "nat \<Rightarrow> string" where
  "digits_nat n = (if n < 10 then [digit_char n] else digits_nat (n div 10) @ [digit_char (n mod 10)])"
  by pat_completeness auto
termination
  by (relation "measure id") auto

declare digits_nat.simps [simp del]

definition Itoa :: "int \<Rightarrow> string" where
  "Itoa i = (if i < 0 then CHR ''-'' # digits_nat (nat (- i)) else digits_nat (nat i))"

definition digits_val :: "string \<Rightarrow> nat" where
  "digits_val ds = fold (\<lambda>c a. 10 * a + ((of_char c :: nat) - 48)) ds 0"

text \<open>
  \<^verbatim>\<open>strconv.Atoi\<close>: an optional sign and at least one decimal digit, nothing else;
  a value outside the 64-bit \<open>int\<close> is a range error, which carries the clamped value
  that Go returns beside the error.
\<close>

datatype NumError = ErrSyntax | ErrRange int

definition Atoi :: "string \<Rightarrow> NumError + int" where
  "Atoi s =
     (let signed = (s \<noteq> [] \<and> (hd s = CHR ''-'' \<or> hd s = CHR ''+''));
          neg = (s \<noteq> [] \<and> hd s = CHR ''-'');
          ds = (if signed then tl s else s)
      in if ds = [] \<or> \<not> list_all isDigit ds then Inl ErrSyntax
         else let v = (if neg then - int (digits_val ds) else int (digits_val ds))
              in if v < - (2 ^ 63) then Inl (ErrRange (- (2 ^ 63)))
                 else if 2 ^ 63 \<le> v then Inl (ErrRange (2 ^ 63 - 1))
                 else Inr v)"

text \<open>\<^verbatim>\<open>p, _ := strconv.Atoi(s)\<close>: the value Go returns when the error is dropped.\<close>

definition Atoi_value :: "string \<Rightarrow> int" where
  "Atoi_value s = (case Atoi s of Inr v \<Rightarrow> v | Inl ErrSyntax \<Rightarrow> 0 | Inl (ErrRange v) \<Rightarrow> v)"

subsection \<open>Regular expressions of the source\<close>

text \<open>
  The two patterns of \<^verbatim>\<open>gather.go\<close>, each as the leftmost match that Go's regexp
  finds. \<^verbatim>\<open>PRETTY_NAME="([^"]+)"\<close>: after the opening quote the longest run of
  bytes other than the quote, at least one, and then a quote; the result is the run
  (\<open>match[1]\<close>), and \<open>None\<close> is a \<open>match\<close> of length 0.
\<close>

definition match_PRETTY_NAME :: "string \<Rightarrow> string option" where
  "match_PRETTY_NAME s =
     (let key = ''PRETTY_NAME='' @ [CHR 0x22] in
      if HasPrefix s key then
        (let r = drop (length key) s;
             body = takeWhile (\<lambda>c. c \<noteq> CHR 0x22) r;
             rest = dropWhile (\<lambda>c. c \<noteq> CHR 0x22) r
         in if body \<noteq> [] \<and> rest \<noteq> [] then Some body else None)
      else None)"

fun FindSubmatch_PRETTY_NAME :: "string \<Rightarrow> string option" where
  "FindSubmatch_PRETTY_NAME [] = None"
| "FindSubmatch_PRETTY_NAME (c # cs) =
     (case match_PRETTY_NAME (c # cs) of
        Some m \<Rightarrow> Some m
      | None \<Rightarrow> FindSubmatch_PRETTY_NAME cs)"

text \<open>
  \<^verbatim>\<open>(\d+\.\d+(\.\d+)?)\<close> with \<^verbatim>\<open>FindString\<close>: digits, a dot, digits, and a
  second dot with digits when they follow; the empty string when nothing matches.
\<close>

definition match_version :: "string \<Rightarrow> string option" where
  "match_version s =
     (let d1 = takeWhile isDigit s; r1 = dropWhile isDigit s in
      if d1 = [] \<or> r1 = [] \<or> hd r1 \<noteq> CHR ''.'' then None
      else let d2 = takeWhile isDigit (tl r1); r2 = dropWhile isDigit (tl r1) in
        if d2 = [] then None
        else if r2 \<noteq> [] \<and> hd r2 = CHR ''.'' \<and> takeWhile isDigit (tl r2) \<noteq> []
          then Some (d1 @ ''.'' @ d2 @ ''.'' @ takeWhile isDigit (tl r2))
          else Some (d1 @ ''.'' @ d2))"

fun FindString_version :: "string \<Rightarrow> string" where
  "FindString_version [] = []"
| "FindString_version (c # cs) =
     (case match_version (c # cs) of
        Some m \<Rightarrow> m
      | None \<Rightarrow> FindString_version cs)"

subsection \<open>Panics\<close>

datatype panic = IndexOutOfRange | SliceOutOfRange | NilDereference | NilFunc

definition pbind :: "panic + 'a \<Rightarrow> ('a \<Rightarrow> panic + 'b) \<Rightarrow> panic + 'b" where
  "pbind m f = (case m of Inl p \<Rightarrow> Inl p | Inr v \<Rightarrow> f v)"

text \<open>\<^verbatim>\<open>xs[i]\<close> and \<^verbatim>\<open>s[i:]\<close> with Go's bounds checks.\<close>

definition index :: "'a list \<Rightarrow> nat \<Rightarrow> panic + 'a" where
  "index xs i = (if i < length xs then Inr (xs ! i) else Inl IndexOutOfRange)"

definition slice_from :: "string \<Rightarrow> int \<Rightarrow> panic + string" where
  "slice_from s i =
     (if 0 \<le> i \<and> i \<le> int (length s) then Inr (drop (nat i) s) else Inl SliceOutOfRange)"

text \<open>
  A goroutine that panics takes the process down: the join of a fan-out yields the
  results of all units, or the panic.
\<close>

fun join_all :: "(panic + 'a) list \<Rightarrow> panic + 'a list" where
  "join_all [] = Inr []"
| "join_all (r # rs) =
     (case r of
        Inl p \<Rightarrow> Inl p
      | Inr v \<Rightarrow> (case join_all rs of Inl p \<Rightarrow> Inl p | Inr vs \<Rightarrow> Inr (v # vs)))"

subsection \<open>The world outside the program\<close>

text \<open>
  Every result the program obtains from the operating system, from gopsutil or from the
  Go library is a field of \<open>World\<close>; a Go result \<open>(v, err)\<close> is \<open>error + v\<close> where
  the source tests \<open>err\<close>, and the bare value where the source drops \<open>err\<close>. A
  \<open>float64\<close> is its 64 bits; floating-point arithmetic and \<^verbatim>\<open>%.Nf\<close> formatting are
  library functions of the world, as are the Unicode tables behind
  \<^verbatim>\<open>strings.ToLower\<close> and \<^verbatim>\<open>strings.Title\<close> on text that is not ASCII. One
  collection pass sees one world: a query asked twice has one answer. \<open>Getenv\<close> is what
  \<^verbatim>\<open>os.Getenv\<close> returns to the program itself. The library and the commands see
  the environment as well: \<^verbatim>\<open>exec.LookPath\<close> reads \<open>PATH\<close>, and a command inherits
  every variable, as the source never sets \<^verbatim>\<open>cmd.Env\<close>. \<open>LookPath\<close> and
  \<open>cmd_Output\<close> are their results under the environment of the world.
\<close>

type_synonym float64 = "64 word"

datatype error = Error string

record CPUInfoStat =
  ModelName :: string
  Mhz :: float64

record VirtualMemoryStat =
  vm_Total :: "64 word"
  vm_Used :: "64 word"
  vm_UsedPercent :: float64

record SwapMemoryStat =
  sw_Total :: "64 word"
  sw_Used :: "64 word"
  sw_UsedPercent :: float64

record UsageStat =
  du_Total :: "64 word"
  du_Used :: "64 word"
  du_UsedPercent :: float64

record InfoStat =
  h_Uptime :: "64 word"
  Platform :: string
  PlatformVersion :: string
  KernelVersion :: string

record TemperatureStat =
  SensorKey :: string
  t_Temperature :: float64

record Addr =
  IP :: string
  Port :: "32 word"

record ConnectionStat =
  Status :: string
  Laddr :: Addr

text \<open>
  A \<^verbatim>\<open>net.IP\<close> as far as the source looks at it: \<^verbatim>\<open>IsLoopback()\<close>,
  \<^verbatim>\<open>To4() != nil\<close> and \<^verbatim>\<open>String()\<close>. An interface address is a
  \<^verbatim>\<open>*net.IPNet\<close> or something else.
\<close>

record netIP =
  IsLoopback :: bool
  To4_ok :: bool
  IP_String :: string

datatype net_Addr = IPNet netIP | OtherAddr

record World =
  GOOS :: string
  runtime_Version :: string
  Getenv :: "string \<Rightarrow> string"
  LookPath :: "string \<Rightarrow> error + string"
  cmd_Output :: "string \<Rightarrow> string list \<Rightarrow> error + string"
  ReadFile :: "string \<Rightarrow> error + string"
  os_Hostname :: string
  cpu_Info :: "error + CPUInfoStat list"
  cpu_Counts :: "bool \<Rightarrow> int"
  cpu_Percent :: "error + float64 list"
  mem_VirtualMemory :: "error + VirtualMemoryStat"
  mem_SwapMemory :: "error + SwapMemoryStat"
  disk_Usage :: "string \<Rightarrow> error + UsageStat"
  host_Info :: "error + InfoStat"
  host_PlatformInformation :: "string \<times> string \<times> string"
  host_Virtualization :: "error + string"
  host_SensorsTemperatures :: "error + TemperatureStat list"
  psnet_Connections :: "string \<Rightarrow> error + ConnectionStat list"
  net_Dial :: "string \<Rightarrow> string \<Rightarrow> error + netIP"
  net_InterfaceAddrs :: "error + net_Addr list"
  Duration_Hours :: "int \<Rightarrow> float64"
  Duration_Minutes :: "int \<Rightarrow> float64"
  float_of_uint64 :: "64 word \<Rightarrow> float64"
  float_of_const :: "int \<Rightarrow> float64"
  float_div :: "float64 \<Rightarrow> float64 \<Rightarrow> float64"
  float_less :: "float64 \<Rightarrow> float64 \<Rightarrow> bool"
  int_of_float :: "float64 \<Rightarrow> int"
  fmt_float :: "nat \<Rightarrow> float64 \<Rightarrow> string"
  unicode_ToLower :: "string \<Rightarrow> string"
  unicode_Title :: "string \<Rightarrow> string"

definition ToLower :: "World \<Rightarrow> string \<Rightarrow> string" where
  "ToLower w s = (if isASCII s then map toLowerByte s else unicode_ToLower w s)"

definition Title :: "World \<Rightarrow> string \<Rightarrow> string" where
  "Title w s = (if isASCII s then TitleFrom (CHR '' '') s else unicode_Title w s)"

subsection \<open>Internal helper functions\<close>

definition runCommand :: "World \<Rightarrow> string \<Rightarrow> string list \<Rightarrow> string" where
  "runCommand w name arg =
     (case cmd_Output w name arg of
        Inl err \<Rightarrow> ''''
      | Inr out \<Rightarrow> TrimSpace out)"

definition runShellCommand :: "World \<Rightarrow> string \<Rightarrow> string" where
  "runShellCommand w command =
     (case (if GOOS w = ''windows''
            then cmd_Output w ''powershell'' [''-NoProfile'', ''-Command'', command]
            else cmd_Output w ''sh'' [''-c'', command]) of
        Inl err \<Rightarrow> ''''
      | Inr out \<Rightarrow> TrimSpace out)"

subsection \<open>SystemInfo and the writes of a task\<close>

record SystemInfo =
  OS :: string
  Kernel :: string
  Uptime :: string
  Shell :: string
  CPU :: string
  CoresThreads :: string
  CPUSpeed :: string
  CPUUsage :: string
  GPU :: string
  RAM :: string
  Disk :: string
  Swap :: string
  Hostname :: string
  IPAddress :: string
  OpenPorts :: string
  Locale :: string
  Resolution :: string
  WindowManager :: string
  DE :: string
  Terminal :: string
  Packages :: string
  Languages :: string
  Go :: string
  Virtualization :: string
  Temperature :: string

text \<open>
  \<^verbatim>\<open>&info.Shell\<close> and its like: a pointer to one field of the struct. A task's
  assignments through such pointers are its writes, in the order it makes them.
\<close>

datatype field =
  F_OS | F_Kernel | F_Uptime | F_Shell | F_CPU | F_CoresThreads | F_CPUSpeed | F_CPUUsage
| F_GPU | F_RAM | F_Disk | F_Swap | F_Hostname | F_IPAddress | F_OpenPorts | F_Locale
| F_Resolution | F_WindowManager | F_DE | F_Terminal | F_Packages | F_Languages | F_Go
| F_Virtualization | F_Temperature

type_synonym assignment = "field \<times> string"

fun store :: "assignment \<Rightarrow> SystemInfo \<Rightarrow> SystemInfo" where
  "store (F_OS, v) info = info\<lparr>OS := v\<rparr>"
| "store (F_Kernel, v) info = info\<lparr>Kernel := v\<rparr>"
| "store (F_Uptime, v) info = info\<lparr>Uptime := v\<rparr>"
| "store (F_Shell, v) info = info\<lparr>Shell := v\<rparr>"
| "store (F_CPU, v) info = info\<lparr>CPU := v\<rparr>"
| "store (F_CoresThreads, v) info = info\<lparr>CoresThreads := v\<rparr>"
| "store (F_CPUSpeed, v) info = info\<lparr>CPUSpeed := v\<rparr>"
| "store (F_CPUUsage, v) info = info\<lparr>CPUUsage := v\<rparr>"
| "store (F_GPU, v) info = info\<lparr>GPU := v\<rparr>"
| "store (F_RAM, v) info = info\<lparr>RAM := v\<rparr>"
| "store (F_Disk, v) info = info\<lparr>Disk := v\<rparr>"
| "store (F_Swap, v) info = info\<lparr>Swap := v\<rparr>"
| "store (F_Hostname, v) info = info\<lparr>Hostname := v\<rparr>"
| "store (F_IPAddress, v) info = info\<lparr>IPAddress := v\<rparr>"
| "store (F_OpenPorts, v) info = info\<lparr>OpenPorts := v\<rparr>"
| "store (F_Locale, v) info = info\<lparr>Locale := v\<rparr>"
| "store (F_Resolution, v) info = info\<lparr>Resolution := v\<rparr>"
| "store (F_WindowManager, v) info = info\<lparr>WindowManager := v\<rparr>"
| "store (F_DE, v) info = info\<lparr>DE := v\<rparr>"
| "store (F_Terminal, v) info = info\<lparr>Terminal := v\<rparr>"
| "store (F_Packages, v) info = info\<lparr>Packages := v\<rparr>"
| "store (F_Languages, v) info = info\<lparr>Languages := v\<rparr>"
| "store (F_Go, v) info = info\<lparr>Go := v\<rparr>"
| "store (F_Virtualization, v) info = info\<lparr>Virtualization := v\<rparr>"
| "store (F_Temperature, v) info = info\<lparr>Temperature := v\<rparr>"

fun load :: "field \<Rightarrow> SystemInfo \<Rightarrow> string" where
  "load F_OS info = OS info"
| "load F_Kernel info = Kernel info"
| "load F_Uptime info = Uptime info"
| "load F_Shell info = Shell info"
| "load F_CPU info = CPU info"
| "load F_CoresThreads info = CoresThreads info"
| "load F_CPUSpeed info = CPUSpeed info"
| "load F_CPUUsage info = CPUUsage info"
| "load F_GPU info = GPU info"
| "load F_RAM info = RAM info"
| "load F_Disk info = Disk info"
| "load F_Swap info = Swap info"
| "load F_Hostname info = Hostname info"
| "load F_IPAddress info = IPAddress info"
| "load F_OpenPorts info = OpenPorts info"
| "load F_Locale info = Locale info"
| "load F_Resolution info = Resolution info"
| "load F_WindowManager info = WindowManager info"
| "load F_DE info = DE info"
| "load F_Terminal info = Terminal info"
| "load F_Packages info = Packages info"
| "load F_Languages info = Languages info"
| "load F_Go info = Go info"
| "load F_Virtualization info = Virtualization info"
| "load F_Temperature info = Temperature info"

text \<open>\<^verbatim>\<open>&SystemInfo{}\<close>: every field the empty string.\<close>

definition zero_SystemInfo :: SystemInfo where
  "zero_SystemInfo =
     \<lparr>OS = [], Kernel = [], Uptime = [], Shell = [], CPU = [], CoresThreads = [],
      CPUSpeed = [], CPUUsage = [], GPU = [], RAM = [], Disk = [], Swap = [], Hostname = [],
      IPAddress = [], OpenPorts = [], Locale = [], Resolution = [], WindowManager = [],
      DE = [], Terminal = [], Packages = [], Languages = [], Go = [], Virtualization = [],
      Temperature = []\<rparr>"

subsection \<open>Gathering functions\<close>

text \<open>Bytes that a string literal of this theory cannot hold, for the shell commands.\<close>

definition sq :: string where "sq = [CHR 0x27]"
definition dq :: string where "dq = [CHR 0x22]"
definition bsl :: string where "bsl = [CHR 0x5C]"
definition newline :: string where "newline = [CHR 0x0A]"

definition getCPUInfoDetailed :: "World \<Rightarrow> string" where
  "getCPUInfoDetailed w =
     (case cpu_Info w of
        Inr (c # cs) \<Rightarrow> ModelName c
      | _ \<Rightarrow> ''Unknown Processor'')"

text \<open>
  \<^verbatim>\<open>h, _ := host.Info()\<close> at the end of \<^verbatim>\<open>getOSInfo\<close> drops the error and reads
  \<open>h.Platform\<close>: gopsutil returns a nil pointer beside an error, so the read panics
  there.
\<close>

definition getOSInfo :: "World \<Rightarrow> panic + string" where
  "getOSInfo w =
     (let after_switch =
            (case host_Info w of
               Inl err \<Rightarrow> Inl NilDereference
             | Inr h \<Rightarrow> Inr (Platform h @ '' '' @ PlatformVersion h))
      in
      if GOOS w = ''linux'' then
        (case (case ReadFile w ''/etc/os-release'' of
                 Inr content \<Rightarrow> FindSubmatch_PRETTY_NAME content
               | Inl err \<Rightarrow> None) of
           Some m \<Rightarrow> Inr m
         | None \<Rightarrow>
             (case host_PlatformInformation w of
                (platform, family, version) \<Rightarrow>
                  if platform \<noteq> '''' \<and> version \<noteq> '''' then Inr (platform @ '' '' @ version)
                  else after_switch))
      else if GOOS w = ''windows'' then
        (let productName = runShellCommand w ''(Get-CimInstance Win32_OperatingSystem).Caption'';
             buildNumber = runShellCommand w ''(Get-CimInstance Win32_OperatingSystem).BuildNumber''
         in if productName \<noteq> '''' then
              (let productName' = TrimSpace (Replace1 productName ''Microsoft '' '''')
               in if buildNumber \<noteq> '''' then Inr (productName' @ '' (Build '' @ buildNumber @ '')'')
                  else Inr productName')
            else after_switch)
      else if GOOS w = ''darwin'' then
        (let productVersion = runCommand w ''sw_vers'' [''-productVersion''];
             buildVersion = runCommand w ''sw_vers'' [''-buildVersion'']
         in if productVersion \<noteq> ''''
            then Inr (''macOS '' @ productVersion @ '' ('' @ buildVersion @ '')'')
            else after_switch)
      else after_switch)"

text \<open>
  The uptime is a \<^verbatim>\<open>time.Duration\<close>, a signed 64-bit count of nanoseconds;
  \<^verbatim>\<open>%\<close> on Go's \<open>int\<close> truncates, which is \<open>smod\<close>.
\<close>

definition gatherHostInfo :: "World \<Rightarrow> panic + assignment list" where
  "gatherHostInfo w =
     (case host_Info w of
        Inl err \<Rightarrow> Inr []
      | Inr h \<Rightarrow>
          (let uptimeDuration = sint (1000000000 * h_Uptime h);
               days = int_of_float w
                        (float_div w (Duration_Hours w uptimeDuration) (float_of_const w 24));
               hours = int_of_float w (Duration_Hours w uptimeDuration) smod 24;
               minutes = int_of_float w (Duration_Minutes w uptimeDuration) smod 60;
               uptime =
                 (if days > 0 then Itoa days @ '' days, '' @ Itoa hours @ '' hours''
                  else if hours > 0 then Itoa hours @ '' hours, '' @ Itoa minutes @ '' minutes''
                  else Itoa minutes @ '' minutes'')
           in pbind (getOSInfo w) (\<lambda>os.
                (let kernelName = (if Platform h = ''windows'' then ''Windows NT'' else Platform h)
                 in Inr [(F_Uptime, uptime), (F_OS, os),
                         (F_Kernel, Title w kernelName @ '' '' @ KernelVersion h),
                         (F_Hostname, os_Hostname w)]))))"

definition gatherCPUInfo :: "World \<Rightarrow> bool \<Rightarrow> assignment list" where
  "gatherCPUInfo w isFast =
     [(F_CPU, getCPUInfoDetailed w)] @
     (case cpu_Info w of
        Inr (c # cs) \<Rightarrow>
          [(F_CPUSpeed,
            if float_less w (float_of_const w 1000) (Mhz c)
            then fmt_float w 2 (float_div w (Mhz c) (float_of_const w 1000)) @ '' GHz''
            else fmt_float w 0 (Mhz c) @ '' MHz'')]
      | _ \<Rightarrow> []) @
     [(F_CoresThreads, Itoa (cpu_Counts w False) @ ''/'' @ Itoa (cpu_Counts w True))] @
     (if \<not> isFast then
        [(F_CPUUsage,
          case cpu_Percent w of
            Inr (p # ps) \<Rightarrow> fmt_float w 1 p @ ''%''
          | _ \<Rightarrow> ''N/A'')]
      else [])"

definition gigabytes :: "World \<Rightarrow> 64 word \<Rightarrow> float64" where
  "gigabytes w n = float_div w (float_of_uint64 w n) (float_of_const w (2 ^ 30))"

definition gatherMemoryInfo :: "World \<Rightarrow> assignment list" where
  "gatherMemoryInfo w =
     (case mem_VirtualMemory w of
        Inr v \<Rightarrow>
          [(F_RAM, fmt_float w 1 (gigabytes w (vm_Used v)) @ ''GB / '' @
                   fmt_float w 1 (gigabytes w (vm_Total v)) @ ''GB ('' @
                   fmt_float w 0 (vm_UsedPercent v) @ ''%)'')]
      | Inl err \<Rightarrow> []) @
     [(F_Swap,
       case mem_SwapMemory w of
         Inr s \<Rightarrow>
           if sw_Total s > 0 then
             fmt_float w 1 (gigabytes w (sw_Used s)) @ ''GB / '' @
             fmt_float w 1 (gigabytes w (sw_Total s)) @ ''GB ('' @
             fmt_float w 1 (sw_UsedPercent s) @ ''%)''
           else ''None''
       | Inl err \<Rightarrow> ''None'')]"

definition getShell :: "World \<Rightarrow> panic + string" where
  "getShell w =
     (case (if GOOS w \<noteq> ''windows'' then
              (if Getenv w ''SHELL'' = '''' then Inl ''Unknown'' else Inr (Getenv w ''SHELL''))
            else if Getenv w ''PSModulePath'' \<noteq> '''' then Inr ''powershell''
            else if Getenv w ''ComSpec'' \<noteq> '''' then Inr ''cmd''
            else if Getenv w ''WT_SESSION'' \<noteq> '''' then Inl ''Windows Terminal''
            else Inl ''Unknown'') of
        Inl early \<Rightarrow> Inr early
      | Inr shellPath \<Rightarrow>
          pbind (slice_from shellPath (LastIndexByte shellPath (CHR ''/'') + 1)) (\<lambda>base.
            (let shellName = TrimSuffix (ToLower w base) ''.exe'' in
             pbind
               (if shellName = ''bash'' \<or> shellName = ''zsh'' \<or> shellName = ''fish'' then
                  (let out = runCommand w shellPath [''--version''] in
                   if out \<noteq> '''' then
                     pbind (index (Split out newline) 0) (\<lambda>firstLine.
                       Inr (FindString_version firstLine))
                   else Inr '''')
                else if shellName = ''powershell'' then
                  Inr (runShellCommand w ''$PSVersionTable.PSVersion.Major'')
                else Inr '''')
               (\<lambda>version.
                  (let titleName = Title w shellName in
                   if version \<noteq> '''' then Inr (titleName @ '' '' @ version)
                   else Inr titleName)))))"

definition getGPUInfo :: "World \<Rightarrow> string" where
  "getGPUInfo w =
     (if GOOS w = ''windows'' then
        runShellCommand w ''(Get-CimInstance Win32_VideoController).Caption''
      else if GOOS w = ''linux'' then
        (let output = runShellCommand w
               (''lspci -mm | grep -i '' @ sq @ ''VGA'' @ bsl @ ''|3D'' @ bsl @ ''|Display'' @ sq @
                '' | head -n1 | cut -d '' @ sq @ dq @ sq @ '' -f2,4 | sed '' @
                sq @ ''s/'' @ dq @ '' '' @ dq @ ''/ /'' @ sq)
         in if output \<noteq> '''' then output
            else TrimSpace (runShellCommand w
               (''lspci | grep -i '' @ sq @ ''VGA'' @ bsl @ ''|3D'' @ bsl @ ''|Display'' @ sq @
                '' | head -n1 | cut -d '' @ sq @ '':'' @ sq @ '' -f3 | sed '' @
                sq @ ''s/ (rev ..)//;s/'' @ bsl @ ''[.*'' @ bsl @ '']//'' @ sq)))
      else if GOOS w = ''darwin'' then
        TrimSpace (runShellCommand w
          (''system_profiler SPDisplaysDataType | grep '' @ sq @ ''Chipset Model'' @ sq @
           '' | cut -d '' @ sq @ '':'' @ sq @ '' -f2''))
      else ''Unknown'')"

text \<open>
  \<^verbatim>\<open>portSet\<close> is a Go map used as a set: the keys are kept without duplicates, and the
  \<^verbatim>\<open>range\<close> loop over it visits them in an order Go does not fix. \<open>ports_report\<close> is
  the rest of \<^verbatim>\<open>getOpenPorts\<close>, given the keys in the order the loop visits them.
\<close>

definition portSet :: "ConnectionStat list \<Rightarrow> string list" where
  "portSet conns =
     fold (\<lambda>conn keys.
             if Status conn = ''LISTEN'' \<and> IP (Laddr conn) \<noteq> ''::''
                \<and> IP (Laddr conn) \<noteq> ''0.0.0.0''
             then List.insert (Itoa (uint (Port (Laddr conn)))) keys
             else keys)
          conns []"

definition ports_report :: "string list \<Rightarrow> string" where
  "ports_report keys =
     (if length keys = 0 then ''None''
      else let ports = sort (map Atoi_value keys);
               portStrings = map Itoa ports;
               limit = 5
           in if length portStrings > limit then Join (take limit portStrings) '', '' @ ''...''
              else Join portStrings '', '')"

definition getOpenPorts :: "World \<Rightarrow> string" where
  "getOpenPorts w =
     (case psnet_Connections w ''tcp'' of
        Inl err \<Rightarrow> ''Unknown''
      | Inr conns \<Rightarrow> ports_report (portSet conns))"

text \<open>
  \<^verbatim>\<open>getInstalledLanguages\<close> starts one goroutine per language; each appends its
  language under the mutex when the executable is found. \<open>languages_report\<close> is the part
  after \<^verbatim>\<open>wg.Wait()\<close>, given \<open>installed\<close> in the order the goroutines appended.
\<close>

definition langs :: "string list" where
  "langs = [''Python'', ''Go'', ''Node'', ''Rust'', ''Java'', ''Ruby'', ''PHP'']"

definition cmds :: "(string \<times> string) list" where
  "cmds = [(''Python'', ''python3''), (''Go'', ''go''), (''Node'', ''node''),
           (''Rust'', ''rustc''), (''Java'', ''java''), (''Ruby'', ''ruby''), (''PHP'', ''php'')]"

definition lookup_cmd :: "string \<Rightarrow> string" where
  "lookup_cmd l = (case map_of cmds l of Some c \<Rightarrow> c | None \<Rightarrow> '''')"

definition languages_report :: "string list \<Rightarrow> string" where
  "languages_report installed =
     (let sorted = sort installed in
      if length sorted = 0 then ''None'' else Join sorted '', '')"

definition getInstalledLanguages :: "World \<Rightarrow> string" where
  "getInstalledLanguages w =
     languages_report (filter (\<lambda>l. \<not> isl (LookPath w (lookup_cmd l))) langs)"

fun first_external_ipv4 :: "net_Addr list \<Rightarrow> string option" where
  "first_external_ipv4 [] = None"
| "first_external_ipv4 (IPNet ip # addrs) =
     (if \<not> IsLoopback ip \<and> To4_ok ip then Some (IP_String ip) else first_external_ipv4 addrs)"
| "first_external_ipv4 (OtherAddr # addrs) = first_external_ipv4 addrs"

text \<open>
  The local address of a dialled UDP connection is a \<^verbatim>\<open>*net.UDPAddr\<close>, so the
  unchecked type assertion holds and the world gives its IP.
\<close>

definition getIPAddress :: "World \<Rightarrow> string" where
  "getIPAddress w =
     (case net_Dial w ''udp'' ''8.8.8.8:53'' of
        Inl err \<Rightarrow>
          (case net_InterfaceAddrs w of
             Inr addrs \<Rightarrow>
               (case first_external_ipv4 addrs of
                  Some s \<Rightarrow> s
                | None \<Rightarrow> ''127.0.0.1'')
           | Inl err' \<Rightarrow> ''127.0.0.1'')
      | Inr ip \<Rightarrow> IP_String ip)"

definition getResolution :: "World \<Rightarrow> string" where
  "getResolution w =
     (if GOOS w = ''windows'' then
        (let output = runShellCommand w
               (''(Get-CimInstance Win32_VideoController).CurrentHorizontalResolution,'' @
                ''(Get-CimInstance Win32_VideoController).CurrentVerticalResolution -join '' @
                sq @ ''x'' @ sq)
         in if output \<noteq> '''' then output else ''Unknown'')
      else if GOOS w = ''linux'' then
        (let xrandr =
               (if Getenv w ''DISPLAY'' \<noteq> '''' then
                  runShellCommand w
                    (''xrandr --current | grep '' @ sq @ ''*'' @ sq @ '' | uniq | awk '' @
                     sq @ ''{print $1}'' @ sq)
                else '''')
         in if xrandr \<noteq> '''' then xrandr
            else if Getenv w ''WAYLAND_DISPLAY'' \<noteq> '''' then ''Wayland (res?)''
            else ''Headless'')
      else if GOOS w = ''darwin'' then
        TrimSpace (runShellCommand w
          (''system_profiler SPDisplaysDataType | grep Resolution | awk '' @
           sq @ ''{print $2'' @ dq @ ''x'' @ dq @ ''$4}'' @ sq))
      else ''Unknown'')"

definition getTerminal :: "World \<Rightarrow> string" where
  "getTerminal w =
     (let termProg = Getenv w ''TERM_PROGRAM'' in
      if termProg \<noteq> '''' then
        Title w (Replace1 (TrimSuffix termProg ''.app'') ''iTerm'' ''iTerm2'')
      else let term = Getenv w ''TERM'' in
        if term \<noteq> '''' \<and> term \<noteq> ''xterm-256color'' \<and> term \<noteq> ''screen'' then term
        else ''Unknown'')"

definition getWindowManager :: "World \<Rightarrow> panic + string" where
  "getWindowManager w =
     (if GOOS w = ''linux'' then
        (if Getenv w ''WAYLAND_DISPLAY'' \<noteq> '''' \<and> Getenv w ''XDG_SESSION_TYPE'' = ''wayland''
         then
           (let currentDesktop = ToLower w (Getenv w ''XDG_CURRENT_DESKTOP'') in
            if currentDesktop = ''gnome'' then Inr ''Mutter (Wayland)''
            else if currentDesktop = ''kde'' then Inr ''KWin (Wayland)''
            else if currentDesktop = ''sway'' then Inr ''Sway''
            else if currentDesktop = ''wlroots'' then Inr ''wlroots based''
            else Inr ''Wayland'')
         else
           (let desktopSession = Getenv w ''DESKTOP_SESSION'' in
            if desktopSession \<noteq> '''' then
              (let lowerSession = ToLower w desktopSession in
               if Contains lowerSession ''gnome'' then Inr ''Mutter (X11)''
               else if Contains lowerSession ''kde'' \<or> Contains lowerSession ''plasma''
                 then Inr ''KWin (X11)''
               else if Contains lowerSession ''xfce'' then Inr ''Xfwm4''
               else if Contains lowerSession ''cinnamon'' then Inr ''Muffin''
               else if Contains lowerSession ''mate'' then Inr ''Marco''
               else if Contains lowerSession ''lxqt'' then Inr ''Openbox''
               else Inr (Title w desktopSession))
            else
              (let wm = runShellCommand w
                          (''wmctrl -m | grep '' @ sq @ ''Name:'' @ sq) in
               if wm \<noteq> '''' then
                 pbind (index (Split wm '':'') 1) (\<lambda>name. Inr (TrimSpace name))
               else Inr ''Unknown (X11?)'')))
      else if GOOS w = ''windows'' then Inr ''DWM''
      else if GOOS w = ''darwin'' then Inr ''Quartz Compositor''
      else Inr ''Unknown'')"

definition getSystemLocale :: "World \<Rightarrow> panic + string" where
  "getSystemLocale w =
     (let locale = (if Getenv w ''LANG'' = '''' then Getenv w ''LC_ALL'' else Getenv w ''LANG'') in
      if locale \<noteq> '''' then index (Split locale ''.'') 0
      else if GOOS w = ''windows'' then Inr (runShellCommand w ''(Get-Culture).Name'')
      else Inr ''Unknown'')"

definition getDesktopEnvironment :: "World \<Rightarrow> string" where
  "getDesktopEnvironment w =
     (let de = (if Getenv w ''XDG_CURRENT_DESKTOP'' = '''' then Getenv w ''DESKTOP_SESSION''
                else Getenv w ''XDG_CURRENT_DESKTOP'');
          de1 = Replace1 de ''plasmawayland'' ''Plasma (Wayland)'';
          de2 = Replace1 de1 ''plasma'' ''Plasma (X11)''
      in Title w de2)"

text \<open>
  \<^verbatim>\<open>getPackageCounts\<close> starts one goroutine per entry of the \<open>checkers\<close> map of the
  current operating system. \<open>package_checker\<close> is the body of that goroutine: what it
  sends on the \<open>results\<close> channel, if anything; \<open>check_manager\<close> is the part of the
  body after \<open>baseCmd\<close> is computed. \<open>packages_report\<close> is the part after
  \<^verbatim>\<open>close(results)\<close>, given the channel's content in the order it was sent.
\<close>

definition linux_checkers :: "(string \<times> string) list" where
  "linux_checkers =
     [(''APT'', ''dpkg-query -f . -W | wc -l''),
      (''Pacman'', ''pacman -Qq --color never | wc -l''),
      (''DNF'', ''dnf list installed --quiet | wc -l''),
      (''Flatpak'', ''flatpak list --app --columns=application | wc -l''),
      (''Snap'', ''snap list | tail -n +2 | wc -l'')]"

definition darwin_checkers :: "(string \<times> string) list" where
  "darwin_checkers =
     [(''Brew'', ''brew list --formula | wc -l''),
      (''Cask'', ''brew list --cask | wc -l'')]"

definition windows_checkers :: "(string \<times> string) list" where
  "windows_checkers =
     [(''Choco'', ''(choco list -l | Measure-Object).Count''),
      (''Winget'', ''(winget list | Measure-Object).Count''),
      (''Scoop'', ''(scoop list | Measure-Object).Count'')]"

definition check_manager :: "World \<Rightarrow> string \<Rightarrow> string \<Rightarrow> string \<Rightarrow> string option" where
  "check_manager w n c baseCmd =
     (if isl (LookPath w baseCmd) \<and> baseCmd \<noteq> ''('' then None
      else
        (let countStr = runShellCommand w c in
         if countStr \<noteq> '''' then
           (case Atoi (TrimSpace countStr) of
              Inr cnt \<Rightarrow> if cnt > 0 then Some (n @ '' ('' @ Itoa cnt @ '')'') else None
            | Inl err \<Rightarrow> None)
         else None))"

definition package_checker :: "World \<Rightarrow> string \<times> string \<Rightarrow> panic + string option" where
  "package_checker w nc =
     (case nc of (n, c) \<Rightarrow>
        pbind (index (Split c ''|'') 0) (\<lambda>first.
        pbind (index (Fields first) 0) (\<lambda>baseCmd.
          Inr (check_manager w n c baseCmd))))"

fun sent_by :: "string option \<Rightarrow> string list" where
  "sent_by None = []"
| "sent_by (Some res) = [res]"

definition packages_report :: "string list \<Rightarrow> string" where
  "packages_report sent =
     (let parts = sort sent in
      if length parts = 0 then ''None detected'' else Join parts '', '')"

definition count_packages :: "World \<Rightarrow> (string \<times> string) list \<Rightarrow> panic + string" where
  "count_packages w checkers =
     pbind (join_all (map (package_checker w) checkers)) (\<lambda>rs.
       Inr (packages_report (concat (map sent_by rs))))"

definition getPackageCounts :: "World \<Rightarrow> panic + string" where
  "getPackageCounts w =
     (if GOOS w = ''linux'' then count_packages w linux_checkers
      else if GOOS w = ''darwin'' then count_packages w darwin_checkers
      else if GOOS w = ''windows'' then count_packages w windows_checkers
      else Inr ''None detected'')"

definition getDisk :: "World \<Rightarrow> string" where
  "getDisk w =
     (case disk_Usage w ''/'' of
        Inl err \<Rightarrow> ''N/A''
      | Inr d \<Rightarrow>
          fmt_float w 1 (gigabytes w (du_Used d)) @ ''GB / '' @
          fmt_float w 1 (gigabytes w (du_Total d)) @ ''GB ('' @
          fmt_float w 0 (du_UsedPercent d) @ ''%)'')"

definition getGoVersion :: "World \<Rightarrow> string" where
  "getGoVersion w = runtime_Version w"

definition getVirtualization :: "World \<Rightarrow> string" where
  "getVirtualization w =
     (case host_Virtualization w of
        Inl err \<Rightarrow> ''''
      | Inr virt \<Rightarrow> if virt = '''' then '''' else virt)"

definition degrees :: "World \<Rightarrow> float64 \<Rightarrow> string" where
  "degrees w t = fmt_float w 1 t @ [CHR 0x20, CHR 0xC2, CHR 0xB0, CHR 0x43]"

definition getTemperatures :: "World \<Rightarrow> string" where
  "getTemperatures w =
     (case host_SensorsTemperatures w of
        Inl err \<Rightarrow> ''''
      | Inr temps \<Rightarrow>
          (case temps of
             [] \<Rightarrow> ''''
           | t0 # ts \<Rightarrow>
               (case find (\<lambda>temp. let lowerKey = ToLower w (SensorKey temp) in
                                  Contains lowerKey ''core'' \<or> Contains lowerKey ''cpu''
                                  \<or> Contains lowerKey ''package'') temps of
                  Some temp \<Rightarrow> degrees w (t_Temperature temp)
                | None \<Rightarrow> degrees w (t_Temperature t0))))"

subsection \<open>Main orchestration\<close>

text \<open>
  The maps of \<^verbatim>\<open>GetSystemInfo\<close>, from a task's name to the field it writes to and
  to the function it calls. Calling the \<open>nil\<close> that a map gives for a missing key panics.
\<close>

definition fastTasks :: "(string \<times> field) list" where
  "fastTasks =
     [(''Shell'', F_Shell), (''GPU'', F_GPU), (''Disk'', F_Disk), (''IPAddress'', F_IPAddress),
      (''Locale'', F_Locale), (''Resolution'', F_Resolution),
      (''WindowManager'', F_WindowManager), (''DE'', F_DE), (''Terminal'', F_Terminal),
      (''Go'', F_Go), (''Virtualization'', F_Virtualization)]"

definition fastTaskFuncs :: "(string \<times> (World \<Rightarrow> panic + string)) list" where
  "fastTaskFuncs =
     [(''Shell'', getShell), (''GPU'', \<lambda>w. Inr (getGPUInfo w)), (''Disk'', \<lambda>w. Inr (getDisk w)),
      (''IPAddress'', \<lambda>w. Inr (getIPAddress w)), (''Locale'', getSystemLocale),
      (''Resolution'', \<lambda>w. Inr (getResolution w)), (''WindowManager'', getWindowManager),
      (''DE'', \<lambda>w. Inr (getDesktopEnvironment w)), (''Terminal'', \<lambda>w. Inr (getTerminal w)),
      (''Go'', \<lambda>w. Inr (getGoVersion w)),
      (''Virtualization'', \<lambda>w. Inr (getVirtualization w))]"

definition slowTasks :: "(string \<times> field) list" where
  "slowTasks =
     [(''OpenPorts'', F_OpenPorts), (''Packages'', F_Packages), (''Languages'', F_Languages),
      (''Temperature'', F_Temperature)]"

definition slowTaskFuncs :: "(string \<times> (World \<Rightarrow> panic + string)) list" where
  "slowTaskFuncs =
     [(''OpenPorts'', \<lambda>w. Inr (getOpenPorts w)), (''Packages'', getPackageCounts),
      (''Languages'', \<lambda>w. Inr (getInstalledLanguages w)),
      (''Temperature'', \<lambda>w. Inr (getTemperatures w))]"

text \<open>
  \<^verbatim>\<open>go func(p *string, f func() string) { defer wg.Done(); *p = f() }(Ptr, funcs[key])\<close>:
  one assignment, to the field the pointer names.
\<close>

definition run_task ::
  "World \<Rightarrow> (string \<times> (World \<Rightarrow> panic + string)) list \<Rightarrow> string \<times> field
     \<Rightarrow> panic + assignment list" where
  "run_task w funcs kp =
     (case map_of funcs (fst kp) of
        None \<Rightarrow> Inl NilFunc
      | Some f \<Rightarrow> pbind (f w) (\<lambda>v. Inr [(snd kp, v)]))"

text \<open>
  The goroutines that \<^verbatim>\<open>GetSystemInfo\<close> starts before \<^verbatim>\<open>wg.Wait()\<close>, each with
  the assignments it makes (or its panic).
\<close>

definition tasks :: "World \<Rightarrow> bool \<Rightarrow> (panic + assignment list) list" where
  "tasks w isFast =
     [gatherHostInfo w, Inr (gatherCPUInfo w isFast), Inr (gatherMemoryInfo w)] @
     map (run_task w fastTaskFuncs) fastTasks @
     (if \<not> isFast then map (run_task w slowTaskFuncs) slowTasks else [])"

definition GetSystemInfo :: "World \<Rightarrow> bool \<Rightarrow> panic + SystemInfo" where
  "GetSystemInfo w isFast =
     pbind (join_all (tasks w isFast)) (\<lambda>wss.
       Inr (fold store (concat wss) zero_SystemInfo))"

subsection \<open>The command line\<close>

text \<open>
  The two themes of package display, which \<^verbatim>\<open>main\<close> chooses between.
\<close>

record Theme =
  Category :: string
  Key :: string
  Value :: string
  Accent :: string
  Reset :: string

definition esc :: string where "esc = [CHR 0x1B]"

definition NormalTheme :: Theme where
  "NormalTheme =
     \<lparr>Category = esc @ ''[34m'', Key = esc @ ''[38;5;255m'', Value = esc @ ''[38;5;249m'',
      Accent = esc @ ''[34m'', Reset = esc @ ''[0m''\<rparr>"

definition FastTheme :: Theme where
  "FastTheme =
     \<lparr>Category = esc @ ''[36m'', Key = esc @ ''[38;5;255m'', Value = esc @ ''[38;5;249m'',
      Accent = esc @ ''[36m'', Reset = esc @ ''[0m''\<rparr>"

text \<open>
  \<^verbatim>\<open>flag.Parse()\<close> is the Go library's, not the repository's; the model follows its
  documented syntax. An argument is a flag when it has at least two bytes and starts with
  \<open>-\<close>; one or two dashes are allowed; \<open>--\<close> alone ends the flags, and so does the first
  argument that is not a flag; a value may follow the name after \<open>=\<close>. A boolean flag
  without a value is set to true, with a value to what \<^verbatim>\<open>strconv.ParseBool\<close> reads.
  A name that is not defined is an error, except \<open>help\<close> and \<open>h\<close>, which print the usage
  and give \<^verbatim>\<open>flag.ErrHelp\<close>. With the default \<^verbatim>\<open>ExitOnError\<close> the process then exits
  with code 0 for \<^verbatim>\<open>ErrHelp\<close> and, after printing the error and the usage, with code 2
  for any other error.
\<close>

datatype token = NonFlag | Terminator | BadSyntax | Flag string "string option"

definition classify :: "string \<Rightarrow> token" where
  "classify s =
     (if length s < 2 \<or> hd s \<noteq> CHR ''-'' then NonFlag
      else if s = ''--'' then Terminator
      else let name = (if s ! 1 = CHR ''-'' then drop 2 s else drop 1 s) in
        if name = [] \<or> hd name = CHR ''-'' \<or> hd name = CHR ''='' then BadSyntax
        else if CHR ''='' \<in> set (tl name)
          then Flag (hd name # takeWhile (\<lambda>c. c \<noteq> CHR ''='') (tl name))
                    (Some (tl (dropWhile (\<lambda>c. c \<noteq> CHR ''='') (tl name))))
          else Flag name None)"

definition ParseBool :: "string \<Rightarrow> bool option" where
  "ParseBool str =
     (if str \<in> set [''1'', ''t'', ''T'', ''TRUE'', ''true'', ''True''] then Some True
      else if str \<in> set [''0'', ''f'', ''F'', ''FALSE'', ''false'', ''False''] then Some False
      else None)"

datatype parsed = Flags bool | ErrHelp | ErrOther

text \<open>
  \<^verbatim>\<open>main\<close> defines the names \<open>fast\<close> and \<open>f\<close>, both for the one variable
  \<open>fastFlag\<close> with default false. \<open>parse_args fastFlag args\<close> parses the arguments after
  the program name.
\<close>

fun parse_args :: "bool \<Rightarrow> string list \<Rightarrow> parsed" where
  "parse_args fastFlag [] = Flags fastFlag"
| "parse_args fastFlag (s # rest) =
     (case classify s of
        NonFlag \<Rightarrow> Flags fastFlag
      | Terminator \<Rightarrow> Flags fastFlag
      | BadSyntax \<Rightarrow> ErrOther
      | Flag name val \<Rightarrow>
          if name = ''fast'' \<or> name = ''f'' then
            (case val of
               None \<Rightarrow> parse_args True rest
             | Some v \<Rightarrow>
                 (case ParseBool v of
                    Some b \<Rightarrow> parse_args b rest
                  | None \<Rightarrow> ErrOther))
          else if name = ''help'' \<or> name = ''h'' then ErrHelp
          else ErrOther)"

text \<open>
  What a run of the program comes to: the usage was printed and the process exited with a
  code before anything was collected; or the snapshot was collected in a mode and handed to
  \<^verbatim>\<open>display.DisplaySystemInfo\<close> with a theme, which only reads it; or the collection
  panicked.
\<close>

datatype outcome = UsageExit int | Displayed bool Theme SystemInfo | Panicked panic

definition main :: "World \<Rightarrow> string list \<Rightarrow> outcome" where
  "main w args =
     (case parse_args False args of
        ErrHelp \<Rightarrow> UsageExit 0
      | ErrOther \<Rightarrow> UsageExit 2
      | Flags fastFlag \<Rightarrow>
          (let currentTheme = (if fastFlag then FastTheme else NormalTheme) in
           case GetSystemInfo w fastFlag of
             Inl p \<Rightarrow> Panicked p
           | Inr info \<Rightarrow> Displayed fastFlag currentTheme info))"

subsection \<open>Worlds for concrete runs\<close>

text \<open>
  \<open>bare_world\<close> is a Linux host on which no environment variable is set and every query
  fails. Its floating-point library is a stand-in that computes on whole numbers; the
  theorems below hold for every world, and concrete runs only need some world to start
  from.
\<close>

definition bare_world :: World where
  "bare_world =
     \<lparr>GOOS = ''linux'',
      runtime_Version = ''go1.25.0'',
      Getenv = (\<lambda>name. ''''),
      LookPath = (\<lambda>file. Inl (Error ''executable file not found in $PATH'')),
      cmd_Output = (\<lambda>name arg. Inl (Error ''exit status 127'')),
      ReadFile = (\<lambda>name. Inl (Error ''no such file or directory'')),
      os_Hostname = ''localhost'',
      cpu_Info = Inl (Error ''not implemented''),
      cpu_Counts = (\<lambda>logical. 0),
      cpu_Percent = Inl (Error ''not implemented''),
      mem_VirtualMemory = Inl (Error ''not implemented''),
      mem_SwapMemory = Inl (Error ''not implemented''),
      disk_Usage = (\<lambda>path. Inl (Error ''not implemented'')),
      host_Info = Inl (Error ''not implemented''),
      host_PlatformInformation = ('''', '''', ''''),
      host_Virtualization = Inl (Error ''not implemented''),
      host_SensorsTemperatures = Inl (Error ''not implemented''),
      psnet_Connections = (\<lambda>kind. Inl (Error ''permission denied'')),
      net_Dial = (\<lambda>network address. Inl (Error ''network is unreachable'')),
      net_InterfaceAddrs = Inl (Error ''not implemented''),
      Duration_Hours = (\<lambda>d. word_of_int (d sdiv 3600000000000)),
      Duration_Minutes = (\<lambda>d. word_of_int (d sdiv 60000000000)),
      float_of_uint64 = (\<lambda>n. n),
      float_of_const = (\<lambda>k. word_of_int k),
      float_div = (\<lambda>x y. x div y),
      float_less = (\<lambda>x y. x < y),
      int_of_float = (\<lambda>x. uint x),
      fmt_float = (\<lambda>prec x. Itoa (uint x)),
      unicode_ToLower = (\<lambda>s. s),
      unicode_Title = (\<lambda>s. s)\<rparr>"

definition listener :: "string \<Rightarrow> 32 word \<Rightarrow> ConnectionStat" where
  "listener ip port = \<lparr>Status = ''LISTEN'', Laddr = \<lparr>IP = ip, Port = port\<rparr>\<rparr>"

text \<open>
  Listening sockets on the ports 22, 80, 8080, 3000, 5432 and 9000: once bound to the
  wildcard addresses, once bound to addresses of the host (port 80 on two of them), beside
  an established connection.
\<close>

definition wildcard_conns :: "ConnectionStat list" where
  "wildcard_conns =
     [listener ''0.0.0.0'' 22, listener ''0.0.0.0'' 80, listener ''::'' 8080,
      listener ''0.0.0.0'' 3000, listener ''::'' 5432, listener ''0.0.0.0'' 9000]"

definition bound_conns :: "ConnectionStat list" where
  "bound_conns =
     [listener ''192.168.1.10'' 22, listener ''192.168.1.10'' 80, listener ''127.0.0.1'' 8080,
      listener ''127.0.0.1'' 80, listener ''::1'' 3000,
      \<lparr>Status = ''ESTABLISHED'', Laddr = \<lparr>IP = ''192.168.1.10'', Port = 443\<rparr>\<rparr>,
      listener ''192.168.1.10'' 5432, listener ''10.0.0.7'' 9000, listener ''0.0.0.0'' 25]"

definition wildcard_world :: World where
  "wildcard_world = bare_world\<lparr>psnet_Connections := (\<lambda>kind. Inr wildcard_conns)\<rparr>"

definition bound_world :: World where
  "bound_world = bare_world\<lparr>psnet_Connections := (\<lambda>kind. Inr bound_conns)\<rparr>"

text \<open>
  \<open>desk_world\<close> is a Linux desktop on which the queries succeed: bash as the shell, a
  GNOME session under X11, a Debian package database with 120 packages and an empty snap
  list, Python and Go installed, two gigabytes of swap, and the connections of
  \<open>bound_conns\<close>. It runs 93784 seconds, which is one day, two hours and some minutes.
\<close>

definition desk_world :: World where
  "desk_world = bare_world
     \<lparr>Getenv := (\<lambda>name.
         if name = ''SHELL'' then ''/bin/bash''
         else if name = ''LANG'' then ''en_US.UTF-8''
         else if name = ''XDG_CURRENT_DESKTOP'' then ''GNOME''
         else if name = ''DESKTOP_SESSION'' then ''gnome''
         else if name = ''TERM'' then ''xterm-256color''
         else if name = ''DISPLAY'' then '':0''
         else ''''),
      LookPath := (\<lambda>file.
         if file = ''python3'' \<or> file = ''go'' \<or> file = ''dpkg-query'' \<or> file = ''snap''
         then Inr (''/usr/bin/'' @ file)
         else Inl (Error ''executable file not found in $PATH'')),
      cmd_Output := (\<lambda>name arg.
         if name = ''/bin/bash'' \<and> arg = [''--version'']
           then Inr (''GNU bash, version 5.1.16(1)-release (x86_64-pc-linux-gnu)'' @ newline @
                     ''Copyright (C) 2020 Free Software Foundation, Inc.'' @ newline)
         else if name = ''sh'' \<and> arg = [''-c'', ''dpkg-query -f . -W | wc -l'']
           then Inr (''120'' @ newline)
         else if name = ''sh'' \<and> arg = [''-c'', ''snap list | tail -n +2 | wc -l'']
           then Inr (''0'' @ newline)
         else Inl (Error ''exit status 127'')),
      ReadFile := (\<lambda>name.
         if name = ''/etc/os-release''
           then Inr (''NAME='' @ dq @ ''Ubuntu'' @ dq @ newline @
                     ''PRETTY_NAME='' @ dq @ ''Ubuntu 22.04.3 LTS'' @ dq @ newline)
         else Inl (Error ''no such file or directory'')),
      os_Hostname := ''desk'',
      cpu_Info := Inr [\<lparr>ModelName = ''Intel(R) Core(TM) i7-6700 CPU @ 3.40GHz'', Mhz = 3400\<rparr>],
      cpu_Counts := (\<lambda>logical. if logical then 8 else 4),
      cpu_Percent := Inr [12],
      mem_VirtualMemory :=
        Inr \<lparr>vm_Total = 17179869184, vm_Used = 4294967296, vm_UsedPercent = 25\<rparr>,
      mem_SwapMemory := Inr \<lparr>sw_Total = 2147483648, sw_Used = 0, sw_UsedPercent = 0\<rparr>,
      disk_Usage := (\<lambda>path.
         Inr \<lparr>du_Total = 536870912000, du_Used = 107374182400, du_UsedPercent = 20\<rparr>),
      host_Info :=
        Inr \<lparr>h_Uptime = 93784, Platform = ''ubuntu'', PlatformVersion = ''22.04'',
             KernelVersion = ''5.15.0-91-generic''\<rparr>,
      host_PlatformInformation := (''ubuntu'', ''debian'', ''22.04''),
      host_Virtualization := Inr '''',
      host_SensorsTemperatures :=
        Inr [\<lparr>SensorKey = ''acpitz'', t_Temperature = 40\<rparr>,
             \<lparr>SensorKey = ''coretemp_package_id_0'', t_Temperature = 51\<rparr>],
      psnet_Connections := (\<lambda>kind. Inr bound_conns),
      net_Dial := (\<lambda>network address.
         Inr \<lparr>IsLoopback = False, To4_ok = True, IP_String = ''192.168.1.10''\<rparr>),
      net_InterfaceAddrs :=
        Inr [IPNet \<lparr>IsLoopback = True, To4_ok = True, IP_String = ''127.0.0.1''\<rparr>,
             IPNet \<lparr>IsLoopback = False, To4_ok = True, IP_String = ''192.168.1.10''\<rparr>]\<rparr>"

definition desk_fast_snapshot :: SystemInfo where
  "desk_fast_snapshot =
     \<lparr>OS = ''Ubuntu 22.04.3 LTS'', Kernel = ''Ubuntu 5.15.0-91-generic'',
      Uptime = ''1 days, 2 hours'', Shell = ''Bash 5.1.16'',
      CPU = ''Intel(R) Core(TM) i7-6700 CPU @ 3.40GHz'', CoresThreads = ''4/8'',
      CPUSpeed = ''3 GHz'', CPUUsage = '''', GPU = '''', RAM = ''4GB / 16GB (25%)'',
      Disk = ''100GB / 500GB (20%)'', Swap = ''0GB / 2GB (0%)'', Hostname = ''desk'',
      IPAddress = ''192.168.1.10'', OpenPorts = '''', Locale = ''en_US'',
      Resolution = ''Headless'', WindowManager = ''Mutter (X11)'', DE = ''GNOME'',
      Terminal = ''Unknown'', Packages = '''', Languages = '''', Go = ''go1.25.0'',
      Virtualization = '''', Temperature = ''''\<rparr>"

definition desk_snapshot :: SystemInfo where
  "desk_snapshot = desk_fast_snapshot
     \<lparr>CPUUsage := ''12%'', OpenPorts := ''22, 80, 3000, 5432, 8080...'',
      Packages := ''APT (120)'', Languages := ''Go, Python'',
      Temperature := ''51'' @ [CHR 0x20, CHR 0xC2, CHR 0xB0, CHR 0x43]\<rparr>"

text \<open>Further worlds: a host without a route, hosts for the package counts, and one whose
  window-manager query prints a count.\<close>

definition offline_world :: World where
  "offline_world = desk_world\<lparr>net_Dial := (\<lambda>network address. Inl (Error ''network is unreachable''))\<rparr>"

definition grep_count_world :: World where
  "grep_count_world = bare_world
     \<lparr>cmd_Output := (\<lambda>name arg.
         if name = ''sh'' \<and> arg = [''-c'', ''wmctrl -m | grep '' @ sq @ ''Name:'' @ sq]
         then Inr (''1'' @ newline)
         else Inl (Error ''exit status 127''))\<rparr>"

definition choco_world :: World where
  "choco_world = bare_world
     \<lparr>GOOS := ''windows'',
      LookPath := (\<lambda>file.
         if file = ''choco'' then Inr ''C:/ProgramData/chocolatey/bin/choco.exe''
         else Inl (Error ''executable file not found in %PATH%'')),
      cmd_Output := (\<lambda>name arg.
         if name = ''powershell'' \<and>
            arg = [''-NoProfile'', ''-Command'', ''(choco list -l | Measure-Object).Count'']
         then Inr (''120'' @ [CHR 0x0D, CHR 0x0A])
         else Inl (Error ''exit status 1''))\<rparr>"

definition two_managers :: "(string \<times> string) list" where
  "two_managers =
     [(''Manager2'', ''mgr2 list | wc -l''), (''Manager1'', ''mgr1 list | wc -l'')]"

definition two_manager_world :: World where
  "two_manager_world = bare_world
     \<lparr>LookPath := (\<lambda>file.
         if file = ''mgr1'' then Inr ''/usr/bin/mgr1''
         else Inl (Error ''executable file not found in $PATH'')),
      cmd_Output := (\<lambda>name arg.
         if name = ''sh'' \<and> arg = [''-c'', ''mgr1 list | wc -l''] then Inr (''     120'' @ newline)
         else if name = ''sh'' \<and> arg = [''-c'', ''mgr2 list | wc -l''] then Inr (''7'' @ newline)
         else Inl (Error ''exit status 127''))\<rparr>"

text \<open>
  Four more hosts, all as bare as \<open>bare_world\<close>. \<open>windows_world\<close> runs Windows.
  On \<open>xrandr_world\<close> the one command that works is the \<^verbatim>\<open>xrandr\<close> pipeline of the
  resolution probe, which prints one mode. \<open>wayland_world\<close> is a Wayland session that
  names no desktop: \<open>WAYLAND_DISPLAY\<close> and \<open>XDG_SESSION_TYPE\<close> are set and nothing else.
  \<open>gnome_session_world\<close> has \<open>DESKTOP_SESSION\<close> set to \<open>gnome\<close> and nothing else;
  no command exists on it, as on \<open>bare_world\<close>, so every command fails on both.
\<close>

definition windows_world :: World where
  "windows_world = bare_world\<lparr>GOOS := ''windows''\<rparr>"

definition xrandr_world :: World where
  "xrandr_world = bare_world
     \<lparr>cmd_Output := (\<lambda>name arg.
         if name = ''sh'' \<and>
            arg = [''-c'', ''xrandr --current | grep '' @ sq @ ''*'' @ sq @ '' | uniq | awk '' @
                          sq @ ''{print $1}'' @ sq]
         then Inr (''1920x1080'' @ newline)
         else Inl (Error ''exit status 127''))\<rparr>"

definition wayland_world :: World where
  "wayland_world = bare_world
     \<lparr>Getenv := (\<lambda>name.
         if name = ''WAYLAND_DISPLAY'' then ''wayland-0''
         else if name = ''XDG_SESSION_TYPE'' then ''wayland''
         else [])\<rparr>"

definition gnome_session_world :: World where
  "gnome_session_world =
     bare_world\<lparr>Getenv := (Getenv bare_world)(''DESKTOP_SESSION'' := ''gnome'')\<rparr>"

subsection \<open>Notions used in the statements\<close>

text \<open>
  The ports the probe reports, in the words of the source's filter: the local ports of
  the connections in state LISTEN whose local address is neither \<open>::\<close> nor \<open>0.0.0.0\<close>.
  \<open>ports_text\<close> is the text for a list of ports: \<open>None\<close> when it is empty, the decimal
  numbers joined by a comma and a space, the first five and three dots when there are more.
\<close>

definition listening_non_wildcard :: "ConnectionStat list \<Rightarrow> int set" where
  "listening_non_wildcard conns =
     {uint (Port (Laddr c)) | c.
        c \<in> set conns \<and> Status c = ''LISTEN'' \<and> IP (Laddr c) \<noteq> ''::''
        \<and> IP (Laddr c) \<noteq> ''0.0.0.0''}"

definition ports_text :: "int list \<Rightarrow> string" where
  "ports_text ps =
     (if ps = [] then ''None''
      else if length ps > 5 then Join (map Itoa (take 5 ps)) '', '' @ ''...''
      else Join (map Itoa ps) '', '')"

text \<open>
  The assignments of the standalone tasks, fast and slow, for the values their probes
  return.
\<close>

definition fast_assignments :: "World \<Rightarrow> string \<Rightarrow> string \<Rightarrow> string \<Rightarrow> assignment list" where
  "fast_assignments w sh loc wm =
     [(F_Shell, sh), (F_GPU, getGPUInfo w), (F_Disk, getDisk w),
      (F_IPAddress, getIPAddress w), (F_Locale, loc), (F_Resolution, getResolution w),
      (F_WindowManager, wm), (F_DE, getDesktopEnvironment w), (F_Terminal, getTerminal w),
      (F_Go, getGoVersion w), (F_Virtualization, getVirtualization w)]"

definition slow_assignments :: "World \<Rightarrow> string \<Rightarrow> assignment list" where
  "slow_assignments w pk =
     [(F_OpenPorts, getOpenPorts w), (F_Packages, pk),
      (F_Languages, getInstalledLanguages w), (F_Temperature, getTemperatures w)]"

definition pass_assignments ::
  "assignment list \<Rightarrow> World \<Rightarrow> bool \<Rightarrow> string \<Rightarrow> string \<Rightarrow> string \<Rightarrow> string \<Rightarrow> assignment list" where
  "pass_assignments hw w isFast sh loc wm pk =
     hw @ gatherCPUInfo w isFast @ gatherMemoryInfo w @ fast_assignments w sh loc wm @
     (if isFast then [] else slow_assignments w pk)"

definition slow_fields :: "field set" where
  "slow_fields = {F_CPUUsage, F_OpenPorts, F_Packages, F_Languages, F_Temperature}"

text \<open>
  \<^verbatim>\<open>net.IP.String()\<close> of the Go library never returns the empty string (it prints
  \<open><nil>\<close> for an empty address). The model takes the text of an address from the world,
  so this property of the library is a condition on the world.
\<close>

definition IP_String_nonempty :: "World \<Rightarrow> bool" where
  "IP_String_nonempty w \<longleftrightarrow>
     (\<forall>ip. net_Dial w ''udp'' ''8.8.8.8:53'' = Inr ip \<longrightarrow> IP_String ip \<noteq> []) \<and>
     (\<forall>addrs ip. net_InterfaceAddrs w = Inr addrs \<longrightarrow> IPNet ip \<in> set addrs
        \<longrightarrow> IP_String ip \<noteq> [])"

definition swap_text :: "World \<Rightarrow> SwapMemoryStat \<Rightarrow> string" where
  "swap_text w s =
     fmt_float w 1 (gigabytes w (sw_Used s)) @ ''GB / '' @
     fmt_float w 1 (gigabytes w (sw_Total s)) @ ''GB ('' @
     fmt_float w 1 (sw_UsedPercent s) @ ''%)''"

text \<open>The languages of a list whose executable is found on the search path.\<close>

definition found_languages :: "World \<Rightarrow> string list \<Rightarrow> string list" where
  "found_languages w ls = filter (\<lambda>l. \<not> isl (LookPath w (lookup_cmd l))) ls"

text \<open>
  Two worlds are the same but for \<^verbatim>\<open>os.Getenv\<close> when every query other than
  \<^verbatim>\<open>os.Getenv\<close> has the same result in both. A probe reads the variable \<open>name\<close>
  with \<^verbatim>\<open>os.Getenv\<close> when there are two such worlds in which \<^verbatim>\<open>os.Getenv\<close>
  differs for \<open>name\<close> alone and the probe returns different values.

  This is about the calls of \<^verbatim>\<open>os.Getenv\<close> in the source, and about nothing else.
  The environment reaches a probe on other ways too: the source never sets
  \<^verbatim>\<open>cmd.Env\<close>, so every command a probe runs inherits all the variables, and
  \<^verbatim>\<open>exec.LookPath\<close> resolves a name in \<open>PATH\<close>. What comes of that is in the results
  \<open>cmd_Output\<close> and \<open>LookPath\<close> of a world, and the two worlds compared here have these
  in common. So a probe that does not read a variable with \<^verbatim>\<open>os.Getenv\<close> can still
  return another value once the variable changes on a real host, where the result of a
  command changes with it.
\<close>

definition same_but_Getenv :: "World \<Rightarrow> World \<Rightarrow> bool" where
  "same_but_Getenv w w' \<longleftrightarrow> w' = w\<lparr>Getenv := Getenv w'\<rparr>"

definition reads_with_Getenv :: "(World \<Rightarrow> 'a) \<Rightarrow> string \<Rightarrow> bool" where
  "reads_with_Getenv probe name \<longleftrightarrow>
     (\<exists>w w'. same_but_Getenv w w' \<and> (\<forall>k. k \<noteq> name \<longrightarrow> Getenv w' k = Getenv w k) \<and>
             probe w' \<noteq> probe w)"

definition fast_tokens :: "string set" where
  "fast_tokens = {''--fast'', ''-fast'', ''--f'', ''-f''}"

definition help_tokens :: "string set" where
  "help_tokens = {''--help'', ''-help'', ''--h'', ''-h''}"

section \<open>Properties\<close>

subsection \<open>Numbers and their decimal text\<close>

lemma of_char_digit_char: "d < 10 \<Longrightarrow> (of_char (digit_char d) :: nat) = 48 + d"
  by (simp add: digit_char_def)

lemma isDigit_digit_char: "d < 10 \<Longrightarrow> isDigit (digit_char d)"
  by (simp add: isDigit_def of_char_digit_char)

lemma digits_nat_all_digits: "list_all isDigit (digits_nat n)"
proof (induction n rule: digits_nat.induct)
  case (1 n)
  show ?case
  proof (cases "n < 10")
    case True
    then show ?thesis by (subst digits_nat.simps) (simp add: isDigit_digit_char)
  next
    case False
    with 1 show ?thesis by (subst digits_nat.simps) (simp add: isDigit_digit_char)
  qed
qed

lemma digits_nat_nonempty: "digits_nat n \<noteq> []"
  by (subst digits_nat.simps) simp

lemma digits_val_snoc: "digits_val (ds @ [c]) = 10 * digits_val ds + ((of_char c :: nat) - 48)"
  by (simp add: digits_val_def)

lemma digits_val_digits_nat: "digits_val (digits_nat n) = n"
proof (induction n rule: digits_nat.induct)
  case (1 n)
  show ?case
  proof (cases "n < 10")
    case True
    then show ?thesis
      by (subst digits_nat.simps) (simp add: digits_val_def of_char_digit_char)
  next
    case False
    with 1 have "digits_val (digits_nat (n div 10)) = n div 10" by simp
    with False show ?thesis
      by (subst digits_nat.simps) (simp add: digits_val_snoc of_char_digit_char)
  qed
qed

lemma isDigit_not_sign: "isDigit c \<Longrightarrow> c \<noteq> CHR ''-'' \<and> c \<noteq> CHR ''+''"
  by (auto simp: isDigit_def)

lemma hd_digits_nat_not_sign:
  "hd (digits_nat n) \<noteq> CHR ''-'' \<and> hd (digits_nat n) \<noteq> CHR ''+''"
proof -
  have "isDigit (hd (digits_nat n))"
    using digits_nat_all_digits [of n] digits_nat_nonempty [of n]
    by (cases "digits_nat n") simp_all
  then show ?thesis by (rule isDigit_not_sign)
qed

text \<open>Parsing the decimal text of a 64-bit \<open>int\<close> gives the number back.\<close>

lemma Atoi_Itoa:
  assumes "- (2 ^ 63) \<le> i" and "i < 2 ^ 63"
  shows "Atoi (Itoa i) = Inr i"
proof (cases "i < 0")
  case True
  with assms show ?thesis
    by (simp add: Atoi_def Itoa_def Let_def digits_nat_nonempty digits_nat_all_digits
        digits_val_digits_nat)
next
  case False
  with assms show ?thesis
    using hd_digits_nat_not_sign [of "nat i"]
    by (simp add: Atoi_def Itoa_def Let_def digits_nat_nonempty digits_nat_all_digits
        digits_val_digits_nat)
qed

lemma Atoi_value_Itoa: "- (2 ^ 63) \<le> i \<Longrightarrow> i < 2 ^ 63 \<Longrightarrow> Atoi_value (Itoa i) = i"
  by (simp add: Atoi_value_def Atoi_Itoa)

lemma Itoa_nonempty: "Itoa i \<noteq> []"
  by (simp add: Itoa_def digits_nat_nonempty)

subsection \<open>Open ports\<close>

lemma fold_insert_set:
  "set (fold (\<lambda>c ks. if P c then List.insert (f c) ks else ks) cs acc)
     = set acc \<union> f ` {c \<in> set cs. P c}"
  by (induction cs arbitrary: acc) auto

lemma fold_insert_distinct:
  "distinct acc \<Longrightarrow> distinct (fold (\<lambda>c ks. if P c then List.insert (f c) ks else ks) cs acc)"
  by (induction cs arbitrary: acc) auto

lemma set_portSet: "set (portSet conns) = Itoa ` listening_non_wildcard conns"
  unfolding portSet_def listening_non_wildcard_def fold_insert_set by auto

lemma distinct_portSet: "distinct (portSet conns)"
  unfolding portSet_def by (rule fold_insert_distinct) simp

lemma port_range:
  assumes "i \<in> listening_non_wildcard conns"
  shows "- (2 ^ 63) \<le> i \<and> i < 2 ^ 63"
proof -
  from assms obtain c :: ConnectionStat where i: "i = uint (Port (Laddr c))"
    by (auto simp: listening_non_wildcard_def)
  have lo: "0 \<le> uint (Port (Laddr c))" by simp
  have hi: "uint (Port (Laddr c)) < 2 ^ 32"
    using uint_bounded [of "Port (Laddr c)"] by simp
  have "- (2 ^ 63) \<le> (0::int)" by simp
  then have a: "- (2 ^ 63) \<le> uint (Port (Laddr c))" using lo by (rule order_trans)
  have "(2::int) ^ 32 \<le> 2 ^ 63" by simp
  with hi have b: "uint (Port (Laddr c)) < 2 ^ 63" by (rule less_le_trans)
  from a b show ?thesis unfolding i by (rule conjI)
qed

lemma finite_listening: "finite (listening_non_wildcard conns)"
proof -
  have "listening_non_wildcard conns \<subseteq> (\<lambda>c. uint (Port (Laddr c))) ` set conns"
    by (auto simp: listening_non_wildcard_def)
  then show ?thesis by (rule finite_subset) simp
qed

text \<open>
  Whatever order the \<^verbatim>\<open>range\<close> loop visits the keys of \<open>portSet\<close> in, the sorted
  slice \<open>ports\<close> is the ascending list of the distinct ports.
\<close>

lemma sorted_ports_of_keys:
  assumes "mset keys = mset (portSet conns)"
  shows "sort (map Atoi_value keys) = sorted_list_of_set (listening_non_wildcard conns)"
proof -
  let ?S = "listening_non_wildcard conns"
  have set_keys: "set keys = Itoa ` ?S"
    using assms set_portSet by (metis set_mset_mset)
  have dist_keys: "distinct keys"
    using assms distinct_portSet by (metis mset_eq_imp_distinct_iff)
  have val: "Atoi_value (Itoa i) = i" if "i \<in> ?S" for i
    using port_range [OF that] by (simp add: Atoi_value_Itoa)
  have inj: "inj_on Atoi_value (set keys)"
    unfolding set_keys by (rule inj_onI) (auto simp: val)
  have set_ports: "set (map Atoi_value keys) = ?S"
    unfolding set_map set_keys by (auto simp: val image_iff)
  have "distinct (map Atoi_value keys)"
    using dist_keys inj by (simp add: distinct_map)
  then have "distinct (sort (map Atoi_value keys))" by simp
  moreover have "sorted (sort (map Atoi_value keys))" by simp
  moreover have "set (sort (map Atoi_value keys)) = set (sorted_list_of_set ?S)"
    using set_ports finite_listening by simp
  ultimately show ?thesis
    by (intro sorted_distinct_set_unique) simp_all
qed

lemma ports_report_spec:
  assumes "mset keys = mset (portSet conns)"
  shows "ports_report keys = ports_text (sorted_list_of_set (listening_non_wildcard conns))"
proof -
  let ?ps = "sorted_list_of_set (listening_non_wildcard conns)"
  have ps: "sort (map Atoi_value keys) = ?ps"
    by (rule sorted_ports_of_keys [OF assms])
  have "length ?ps = length (sort (map Atoi_value keys))"
    by (simp only: ps)
  then have len: "length ?ps = length keys"
    by (simp only: length_sort length_map)
  then have empty: "?ps = [] \<longleftrightarrow> keys = []"
    by (metis length_0_conv)
  show ?thesis
  proof (cases "keys = []")
    case True
    with empty show ?thesis by (simp add: ports_report_def ports_text_def)
  next
    case False
    with empty have "?ps \<noteq> []" by simp
    with False len show ?thesis
      unfolding ports_report_def ports_text_def Let_def ps
      by (simp only: length_map take_map length_0_conv if_False)
  qed
qed

text \<open>
  Claim C1, as the code has it. The open-ports probe keeps the listening TCP sockets whose
  local address is \<^emph>\<open>not\<close> a wildcard address (neither \<open>::\<close> nor \<open>0.0.0.0\<close>); it
  removes duplicate ports, sorts the ports ascending and shows at most five of them,
  followed by three dots when there are more. This holds for every order in which Go
  visits the keys of the port set.
\<close>

theorem getOpenPorts_non_wildcard:
  assumes "psnet_Connections w ''tcp'' = Inr conns"
    and "mset keys = mset (portSet conns)"
  shows "getOpenPorts w = ports_report keys \<and>
         ports_report keys = ports_text (sorted_list_of_set (listening_non_wildcard conns))"
proof -
  have "mset (portSet conns) = mset (portSet conns)" by simp
  then have "ports_report (portSet conns)
      = ports_text (sorted_list_of_set (listening_non_wildcard conns))"
    by (rule ports_report_spec)
  moreover have "ports_report keys
      = ports_text (sorted_list_of_set (listening_non_wildcard conns))"
    using assms(2) by (rule ports_report_spec)
  moreover have "getOpenPorts w = ports_report (portSet conns)"
    using assms(1) by (simp add: getOpenPorts_def)
  ultimately show ?thesis by simp
qed

text \<open>
  The literal example of the claim, on sockets bound to addresses of the host: the ports
  22, 80, 8080, 3000, 5432 and 9000 give \<open>22, 80, 3000, 5432, 8080...\<close>.
\<close>

theorem getOpenPorts_non_wildcard_witness:
  "psnet_Connections bound_world ''tcp'' = Inr bound_conns \<and>
   mset [''22'', ''80'', ''8080'', ''3000'', ''5432'', ''9000''] = mset (portSet bound_conns) \<and>
   getOpenPorts bound_world = ''22, 80, 3000, 5432, 8080...''"
proof -
  have h1: "psnet_Connections bound_world ''tcp'' = Inr bound_conns"
    by (simp add: bound_world_def)
  have h2: "mset [''22'', ''80'', ''8080'', ''3000'', ''5432'', ''9000'']
      = mset (portSet bound_conns)"
    by code_simp
  have r: "ports_report [''22'', ''80'', ''8080'', ''3000'', ''5432'', ''9000'']
      = ''22, 80, 3000, 5432, 8080...''"
    by code_simp
  have "getOpenPorts bound_world
      = ports_report [''22'', ''80'', ''8080'', ''3000'', ''5432'', ''9000'']"
    using getOpenPorts_non_wildcard [OF h1 h2] by (rule conjunct1)
  then have "getOpenPorts bound_world = ''22, 80, 3000, 5432, 8080...''"
    by (simp only: r)
  with h1 h2 show ?thesis by (intro conjI)
qed

text \<open>
  The claim as stated fails: with the six listening sockets bound to the wildcard
  addresses, the probe reports no port at all.
\<close>

theorem getOpenPorts_wildcard_counterexample:
  "getOpenPorts wildcard_world = ''None'' \<and>
   getOpenPorts wildcard_world \<noteq> ''22, 80, 3000, 5432, 8080...''"
  by code_simp

subsection \<open>No probe but one can panic\<close>

lemma pbind_Inr [simp]: "pbind (Inr v) f = f v"
  by (simp add: pbind_def)

lemma pbind_Inl [simp]: "pbind (Inl p) f = Inl p"
  by (simp add: pbind_def)

lemma pbind_total:
  assumes "\<exists>v. m = Inr v" and "\<And>v. \<exists>r. f v = Inr r"
  shows "\<exists>r. pbind m f = Inr r"
  using assms by auto

lemma case_sum_total:
  assumes "\<And>p. \<exists>r. g p = Inr r"
  shows "\<exists>r. (case x of Inl e \<Rightarrow> Inr e | Inr p \<Rightarrow> g p) = Inr r"
  using assms by (cases x) auto

lemma LastIndexByte_bounds: "- 1 \<le> LastIndexByte s c \<and> LastIndexByte s c < int (length s)"
  by (induction s) (auto simp: Let_def)

lemma slice_after_LastIndexByte:
  "\<exists>b. slice_from s (LastIndexByte s c + 1) = Inr b"
  using LastIndexByte_bounds [of s c] by (simp add: slice_from_def)

lemma SplitAcc_nonempty: "SplitAcc sep cur s \<noteq> []"
  by (induction sep cur s rule: SplitAcc.induct) (subst SplitAcc.simps, simp)

lemma index0_Split: "index (Split s sep) 0 = Inr (hd (Split s sep))"
  using SplitAcc_nonempty [of sep "[]" s]
  by (cases "Split s sep") (simp_all add: index_def Split_def)

lemma getShell_total: "\<exists>r. getShell w = Inr r"
  unfolding getShell_def Let_def
  apply (rule case_sum_total)
  apply (rule pbind_total)
   apply (rule slice_after_LastIndexByte)
  apply (rule pbind_total)
   apply (simp add: index0_Split)
  apply simp
  done

lemma getSystemLocale_total: "\<exists>r. getSystemLocale w = Inr r"
  by (simp add: getSystemLocale_def index0_Split Let_def)

lemma load_store: "load f (store (g, v) info) = (if f = g then v else load f info)"
  by (cases f; cases g; simp)

lemma load_zero: "load f zero_SystemInfo = []"
  by (cases f) (simp_all add: zero_SystemInfo_def)

lemma SystemInfo_eqI:
  assumes "\<And>f. load f a = load f b"
  shows "a = (b :: SystemInfo)"
proof -
  have "OS a = OS b" using assms [of F_OS] by simp
  moreover have "Kernel a = Kernel b" using assms [of F_Kernel] by simp
  moreover have "Uptime a = Uptime b" using assms [of F_Uptime] by simp
  moreover have "Shell a = Shell b" using assms [of F_Shell] by simp
  moreover have "CPU a = CPU b" using assms [of F_CPU] by simp
  moreover have "CoresThreads a = CoresThreads b" using assms [of F_CoresThreads] by simp
  moreover have "CPUSpeed a = CPUSpeed b" using assms [of F_CPUSpeed] by simp
  moreover have "CPUUsage a = CPUUsage b" using assms [of F_CPUUsage] by simp
  moreover have "GPU a = GPU b" using assms [of F_GPU] by simp
  moreover have "RAM a = RAM b" using assms [of F_RAM] by simp
  moreover have "Disk a = Disk b" using assms [of F_Disk] by simp
  moreover have "Swap a = Swap b" using assms [of F_Swap] by simp
  moreover have "Hostname a = Hostname b" using assms [of F_Hostname] by simp
  moreover have "IPAddress a = IPAddress b" using assms [of F_IPAddress] by simp
  moreover have "OpenPorts a = OpenPorts b" using assms [of F_OpenPorts] by simp
  moreover have "Locale a = Locale b" using assms [of F_Locale] by simp
  moreover have "Resolution a = Resolution b" using assms [of F_Resolution] by simp
  moreover have "WindowManager a = WindowManager b" using assms [of F_WindowManager] by simp
  moreover have "DE a = DE b" using assms [of F_DE] by simp
  moreover have "Terminal a = Terminal b" using assms [of F_Terminal] by simp
  moreover have "Packages a = Packages b" using assms [of F_Packages] by simp
  moreover have "Languages a = Languages b" using assms [of F_Languages] by simp
  moreover have "Go a = Go b" using assms [of F_Go] by simp
  moreover have "Virtualization a = Virtualization b" using assms [of F_Virtualization] by simp
  moreover have "Temperature a = Temperature b" using assms [of F_Temperature] by simp
  ultimately show ?thesis by simp
qed

text \<open>The last assignment to a field is the one that stays.\<close>

lemma load_fold_store:
  "load f (fold store ws info) = (case map_of (rev ws) f of Some v \<Rightarrow> v | None \<Rightarrow> load f info)"
proof (induction ws arbitrary: info)
  case Nil
  show ?case by simp
next
  case (Cons a ws)
  obtain g v where a: "a = (g, v)" by (cases a)
  show ?case
    by (simp add: Cons a load_store map_add_def split: option.splits)
qed

lemma map_of_rev_distinct: "distinct (map fst ws) \<Longrightarrow> map_of (rev ws) = map_of ws"
  by (rule map_of_inject_set [THEN iffD2]) (simp_all add: distinct_rev rev_map [symmetric])

lemma load_fold_store_distinct:
  assumes "distinct (map fst ws)"
  shows "load f (fold store ws zero_SystemInfo) = (case map_of ws f of Some v \<Rightarrow> v | None \<Rightarrow> [])"
  by (simp add: load_fold_store map_of_rev_distinct [OF assms] load_zero split: option.splits)

text \<open>Assignments to different fields commute: the order of the goroutines is immaterial.\<close>

lemma fold_store_perm:
  assumes "distinct (map fst ws)" and "mset ws' = mset ws"
  shows "fold store ws' info = fold store ws info"
proof (rule SystemInfo_eqI)
  fix f
  have d': "distinct (map fst ws')"
    using assms by (metis mset_eq_imp_distinct_iff mset_map)
  have "set ws' = set ws" using assms(2) by (metis set_mset_mset)
  then have "map_of ws' = map_of ws"
    using assms(1) d' by (simp add: map_of_inject_set)
  then show "load f (fold store ws' info) = load f (fold store ws info)"
    by (simp add: load_fold_store map_of_rev_distinct assms(1) d')
qed

lemma getOSInfo_total: "host_Info w = Inr h \<Longrightarrow> \<exists>r. getOSInfo w = Inr r"
  by (auto simp: getOSInfo_def Let_def split: option.splits sum.splits prod.splits)

lemma gatherHostInfo_fields:
  "\<exists>ws. gatherHostInfo w = Inr ws \<and>
        (map fst ws = [] \<or> map fst ws = [F_Uptime, F_OS, F_Kernel, F_Hostname])"
proof (cases "host_Info w")
  case (Inl e)
  then show ?thesis by (simp add: gatherHostInfo_def)
next
  case (Inr h)
  from getOSInfo_total [OF this] obtain os where "getOSInfo w = Inr os" ..
  with Inr show ?thesis by (simp add: gatherHostInfo_def Let_def)
qed

lemma gatherCPUInfo_fields:
  "map fst (gatherCPUInfo w isFast) =
     F_CPU # (case cpu_Info w of Inr (c # cs) \<Rightarrow> [F_CPUSpeed] | _ \<Rightarrow> []) @
     F_CoresThreads # (if isFast then [] else [F_CPUUsage])"
  by (simp add: gatherCPUInfo_def split: sum.splits list.splits)

lemma gatherMemoryInfo_fields:
  "map fst (gatherMemoryInfo w) =
     (case mem_VirtualMemory w of Inr v \<Rightarrow> [F_RAM] | Inl e \<Rightarrow> []) @ [F_Swap]"
  by (simp add: gatherMemoryInfo_def split: sum.splits)

lemma package_checker_base:
  assumes "index (Split c ''|'') 0 = Inr first" and "index (Fields first) 0 = Inr baseCmd"
  shows "package_checker w (n, c) = Inr (check_manager w n c baseCmd)"
  using assms by (simp add: package_checker_def)

lemma first_parts:
  "index (Split ''dpkg-query -f . -W | wc -l'' ''|'') 0 = Inr ''dpkg-query -f . -W ''"
  "index (Split ''pacman -Qq --color never | wc -l'' ''|'') 0 = Inr ''pacman -Qq --color never ''"
  "index (Split ''dnf list installed --quiet | wc -l'' ''|'') 0 = Inr ''dnf list installed --quiet ''"
  "index (Split ''flatpak list --app --columns=application | wc -l'' ''|'') 0
     = Inr ''flatpak list --app --columns=application ''"
  "index (Split ''snap list | tail -n +2 | wc -l'' ''|'') 0 = Inr ''snap list ''"
  "index (Split ''brew list --formula | wc -l'' ''|'') 0 = Inr ''brew list --formula ''"
  "index (Split ''brew list --cask | wc -l'' ''|'') 0 = Inr ''brew list --cask ''"
  "index (Split ''(choco list -l | Measure-Object).Count'' ''|'') 0 = Inr ''(choco list -l ''"
  "index (Split ''(winget list | Measure-Object).Count'' ''|'') 0 = Inr ''(winget list ''"
  "index (Split ''(scoop list | Measure-Object).Count'' ''|'') 0 = Inr ''(scoop list ''"
  by code_simp+

lemma base_cmds:
  "index (Fields ''dpkg-query -f . -W '') 0 = Inr ''dpkg-query''"
  "index (Fields ''pacman -Qq --color never '') 0 = Inr ''pacman''"
  "index (Fields ''dnf list installed --quiet '') 0 = Inr ''dnf''"
  "index (Fields ''flatpak list --app --columns=application '') 0 = Inr ''flatpak''"
  "index (Fields ''snap list '') 0 = Inr ''snap''"
  "index (Fields ''brew list --formula '') 0 = Inr ''brew''"
  "index (Fields ''brew list --cask '') 0 = Inr ''brew''"
  "index (Fields ''(choco list -l '') 0 = Inr ''(choco''"
  "index (Fields ''(winget list '') 0 = Inr ''(winget''"
  "index (Fields ''(scoop list '') 0 = Inr ''(scoop''"
  by code_simp+

lemmas checker_simps =
  package_checker_base [OF first_parts(1) base_cmds(1)]
  package_checker_base [OF first_parts(2) base_cmds(2)]
  package_checker_base [OF first_parts(3) base_cmds(3)]
  package_checker_base [OF first_parts(4) base_cmds(4)]
  package_checker_base [OF first_parts(5) base_cmds(5)]
  package_checker_base [OF first_parts(6) base_cmds(6)]
  package_checker_base [OF first_parts(7) base_cmds(7)]
  package_checker_base [OF first_parts(8) base_cmds(8)]
  package_checker_base [OF first_parts(9) base_cmds(9)]
  package_checker_base [OF first_parts(10) base_cmds(10)]

lemma count_packages_linux:
  "count_packages w linux_checkers =
     Inr (packages_report (concat (map sent_by
       [check_manager w ''APT'' ''dpkg-query -f . -W | wc -l'' ''dpkg-query'',
        check_manager w ''Pacman'' ''pacman -Qq --color never | wc -l'' ''pacman'',
        check_manager w ''DNF'' ''dnf list installed --quiet | wc -l'' ''dnf'',
        check_manager w ''Flatpak'' ''flatpak list --app --columns=application | wc -l'' ''flatpak'',
        check_manager w ''Snap'' ''snap list | tail -n +2 | wc -l'' ''snap''])))"
  by (simp add: count_packages_def linux_checkers_def checker_simps)

lemma count_packages_darwin:
  "count_packages w darwin_checkers =
     Inr (packages_report (concat (map sent_by
       [check_manager w ''Brew'' ''brew list --formula | wc -l'' ''brew'',
        check_manager w ''Cask'' ''brew list --cask | wc -l'' ''brew''])))"
  by (simp add: count_packages_def darwin_checkers_def checker_simps)

lemma count_packages_windows:
  "count_packages w windows_checkers =
     Inr (packages_report (concat (map sent_by
       [check_manager w ''Choco'' ''(choco list -l | Measure-Object).Count'' ''(choco'',
        check_manager w ''Winget'' ''(winget list | Measure-Object).Count'' ''(winget'',
        check_manager w ''Scoop'' ''(scoop list | Measure-Object).Count'' ''(scoop''])))"
  by (simp add: count_packages_def windows_checkers_def checker_simps)

lemma getPackageCounts_total: "\<exists>r. getPackageCounts w = Inr r"
  by (simp add: getPackageCounts_def count_packages_linux count_packages_darwin
      count_packages_windows)

lemma gatherHostInfo_total: "\<exists>ws. gatherHostInfo w = Inr ws"
  using gatherHostInfo_fields [of w] by blast

lemma run_fast_tasks:
  "map (run_task w fastTaskFuncs) fastTasks =
     [pbind (getShell w) (\<lambda>v. Inr [(F_Shell, v)]),
      Inr [(F_GPU, getGPUInfo w)], Inr [(F_Disk, getDisk w)],
      Inr [(F_IPAddress, getIPAddress w)],
      pbind (getSystemLocale w) (\<lambda>v. Inr [(F_Locale, v)]),
      Inr [(F_Resolution, getResolution w)],
      pbind (getWindowManager w) (\<lambda>v. Inr [(F_WindowManager, v)]),
      Inr [(F_DE, getDesktopEnvironment w)], Inr [(F_Terminal, getTerminal w)],
      Inr [(F_Go, getGoVersion w)], Inr [(F_Virtualization, getVirtualization w)]]"
  by (simp add: fastTasks_def fastTaskFuncs_def run_task_def)

lemma run_slow_tasks:
  "map (run_task w slowTaskFuncs) slowTasks =
     [Inr [(F_OpenPorts, getOpenPorts w)],
      pbind (getPackageCounts w) (\<lambda>v. Inr [(F_Packages, v)]),
      Inr [(F_Languages, getInstalledLanguages w)],
      Inr [(F_Temperature, getTemperatures w)]]"
  by (simp add: slowTasks_def slowTaskFuncs_def run_task_def)

lemma join_tasks:
  assumes "gatherHostInfo w = Inr hw" and "getShell w = Inr sh"
    and "getSystemLocale w = Inr loc" and "getWindowManager w = Inr wm"
    and "getPackageCounts w = Inr pk"
  shows "join_all (tasks w isFast) =
     Inr ([hw, gatherCPUInfo w isFast, gatherMemoryInfo w,
           [(F_Shell, sh)], [(F_GPU, getGPUInfo w)], [(F_Disk, getDisk w)],
           [(F_IPAddress, getIPAddress w)], [(F_Locale, loc)],
           [(F_Resolution, getResolution w)], [(F_WindowManager, wm)],
           [(F_DE, getDesktopEnvironment w)], [(F_Terminal, getTerminal w)],
           [(F_Go, getGoVersion w)], [(F_Virtualization, getVirtualization w)]] @
          (if isFast then []
           else [[(F_OpenPorts, getOpenPorts w)], [(F_Packages, pk)],
                 [(F_Languages, getInstalledLanguages w)],
                 [(F_Temperature, getTemperatures w)]]))"
  by (simp add: tasks_def run_fast_tasks run_slow_tasks assms)

lemma join_tasks_panic:
  assumes "getWindowManager w = Inl p"
  shows "join_all (tasks w isFast) = Inl p"
proof -
  obtain hw where "gatherHostInfo w = Inr hw" using gatherHostInfo_total by blast
  moreover obtain sh where "getShell w = Inr sh" using getShell_total by blast
  moreover obtain loc where "getSystemLocale w = Inr loc" using getSystemLocale_total by blast
  ultimately show ?thesis
    by (simp add: tasks_def run_fast_tasks run_slow_tasks assms)
qed

text \<open>The only panic of a collection pass is the one of the window-manager probe.\<close>

lemma GetSystemInfo_panic_iff:
  "GetSystemInfo w isFast = Inl p \<longleftrightarrow> getWindowManager w = Inl p"
proof (cases "getWindowManager w")
  case (Inl q)
  then show ?thesis by (simp add: GetSystemInfo_def join_tasks_panic)
next
  case (Inr wm)
  obtain hw where "gatherHostInfo w = Inr hw" using gatherHostInfo_total by blast
  moreover obtain sh where "getShell w = Inr sh" using getShell_total by blast
  moreover obtain loc where "getSystemLocale w = Inr loc" using getSystemLocale_total by blast
  moreover obtain pk where "getPackageCounts w = Inr pk" using getPackageCounts_total by blast
  ultimately have "\<exists>wss. join_all (tasks w isFast) = Inr wss"
    using Inr join_tasks by blast
  then show ?thesis using Inr by (auto simp: GetSystemInfo_def)
qed

subsection \<open>The assignments of a collection pass\<close>

lemma GetSystemInfo_assignments:
  assumes "GetSystemInfo w isFast = Inr info"
  shows "\<exists>hw sh loc wm pk.
           gatherHostInfo w = Inr hw \<and> getShell w = Inr sh \<and> getSystemLocale w = Inr loc \<and>
           getWindowManager w = Inr wm \<and> getPackageCounts w = Inr pk \<and>
           join_all (tasks w isFast) =
             Inr ([hw, gatherCPUInfo w isFast, gatherMemoryInfo w] @
                  map (\<lambda>a. [a]) (fast_assignments w sh loc wm) @
                  (if isFast then [] else map (\<lambda>a. [a]) (slow_assignments w pk))) \<and>
           info = fold store
                    (hw @ gatherCPUInfo w isFast @ gatherMemoryInfo w @
                     fast_assignments w sh loc wm @
                     (if isFast then [] else slow_assignments w pk))
                    zero_SystemInfo"
proof -
  obtain hw where hw: "gatherHostInfo w = Inr hw" using gatherHostInfo_total by blast
  obtain sh where sh: "getShell w = Inr sh" using getShell_total by blast
  obtain loc where loc: "getSystemLocale w = Inr loc" using getSystemLocale_total by blast
  obtain pk where pk: "getPackageCounts w = Inr pk" using getPackageCounts_total by blast
  have "getWindowManager w \<noteq> Inl p" for p
    using assms GetSystemInfo_panic_iff [of w isFast p] by simp
  then obtain wm where wm: "getWindowManager w = Inr wm"
    by (cases "getWindowManager w") auto
  have j: "join_all (tasks w isFast) =
             Inr ([hw, gatherCPUInfo w isFast, gatherMemoryInfo w] @
                  map (\<lambda>a. [a]) (fast_assignments w sh loc wm) @
                  (if isFast then [] else map (\<lambda>a. [a]) (slow_assignments w pk)))"
    by (simp add: join_tasks [OF hw sh loc wm pk] fast_assignments_def slow_assignments_def)
  have "info = fold store
                    (hw @ gatherCPUInfo w isFast @ gatherMemoryInfo w @
                     fast_assignments w sh loc wm @
                     (if isFast then [] else slow_assignments w pk))
                    zero_SystemInfo"
    using assms unfolding GetSystemInfo_def j
    by (cases isFast) (auto simp: fast_assignments_def slow_assignments_def)
  with hw sh loc wm pk j show ?thesis by blast
qed

lemma host_fields_cases:
  assumes "gatherHostInfo w = Inr hw"
  shows "map fst hw = [] \<or> map fst hw = [F_Uptime, F_OS, F_Kernel, F_Hostname]"
  using gatherHostInfo_fields [of w] assms by auto

lemma distinct_assignments:
  assumes "gatherHostInfo w = Inr hw"
  shows "distinct (map fst (hw @ gatherCPUInfo w isFast @ gatherMemoryInfo w @
                     fast_assignments w sh loc wm @
                     (if isFast then [] else slow_assignments w pk)))"
  using host_fields_cases [OF assms]
  by (auto simp: gatherCPUInfo_fields gatherMemoryInfo_fields fast_assignments_def
      slow_assignments_def split: sum.splits list.splits)

lemma map_of_host:
  assumes "gatherHostInfo w = Inr hw" and "f \<notin> {F_Uptime, F_OS, F_Kernel, F_Hostname}"
  shows "map_of hw f = None"
proof -
  have "f \<notin> set (map fst hw)"
    using host_fields_cases [OF assms(1)] assms(2) by auto
  then show ?thesis by (simp add: map_of_eq_None_iff)
qed

lemma map_of_cpu:
  assumes "f \<notin> {F_CPU, F_CPUSpeed, F_CoresThreads, F_CPUUsage}"
  shows "map_of (gatherCPUInfo w isFast) f = None"
proof -
  have "f \<notin> set (map fst (gatherCPUInfo w isFast))"
    using assms unfolding gatherCPUInfo_fields by (auto split: sum.splits list.splits)
  then show ?thesis by (simp add: map_of_eq_None_iff)
qed

lemma map_of_cpu_usage_fast: "map_of (gatherCPUInfo w True) F_CPUUsage = None"
proof -
  have "F_CPUUsage \<notin> set (map fst (gatherCPUInfo w True))"
    unfolding gatherCPUInfo_fields by (auto split: sum.splits list.splits)
  then show ?thesis by (simp add: map_of_eq_None_iff)
qed

lemma map_of_cpu_usage_slow:
  "map_of (gatherCPUInfo w False) F_CPUUsage =
     Some (case cpu_Percent w of Inr (p # ps) \<Rightarrow> fmt_float w 1 p @ ''%'' | _ \<Rightarrow> ''N/A'')"
  by (simp add: gatherCPUInfo_def split: sum.splits list.splits)

lemma map_of_memory:
  assumes "f \<notin> {F_RAM, F_Swap}"
  shows "map_of (gatherMemoryInfo w) f = None"
proof -
  have "f \<notin> set (map fst (gatherMemoryInfo w))"
    using assms unfolding gatherMemoryInfo_fields by (auto split: sum.splits)
  then show ?thesis by (simp add: map_of_eq_None_iff)
qed

lemma snapshot_lookup:
  assumes "GetSystemInfo w isFast = Inr info"
  shows "\<exists>hw sh loc wm pk.
           gatherHostInfo w = Inr hw \<and> getShell w = Inr sh \<and> getSystemLocale w = Inr loc \<and>
           getWindowManager w = Inr wm \<and> getPackageCounts w = Inr pk \<and>
           (\<forall>f. load f info =
                  (case map_of (pass_assignments hw w isFast sh loc wm pk) f of
                     Some v \<Rightarrow> v | None \<Rightarrow> []))"
proof -
  from GetSystemInfo_assignments [OF assms] obtain hw sh loc wm pk where
    hw: "gatherHostInfo w = Inr hw" and sh: "getShell w = Inr sh"
    and loc: "getSystemLocale w = Inr loc" and wm: "getWindowManager w = Inr wm"
    and pk: "getPackageCounts w = Inr pk"
    and info: "info = fold store (pass_assignments hw w isFast sh loc wm pk) zero_SystemInfo"
    unfolding pass_assignments_def by blast
  have "distinct (map fst (pass_assignments hw w isFast sh loc wm pk))"
    unfolding pass_assignments_def by (rule distinct_assignments [OF hw])
  then have "\<forall>f. load f info =
                  (case map_of (pass_assignments hw w isFast sh loc wm pk) f of
                     Some v \<Rightarrow> v | None \<Rightarrow> [])"
    unfolding info by (simp add: load_fold_store_distinct)
  with hw sh loc wm pk show ?thesis by blast
qed

lemma lookup_append:
  "(case map_of (xs @ ys) f of Some v \<Rightarrow> v | None \<Rightarrow> d) =
     (case map_of xs f of Some v \<Rightarrow> v | None \<Rightarrow> (case map_of ys f of Some v \<Rightarrow> v | None \<Rightarrow> d))"
  by (simp add: map_add_def split: option.splits)

text \<open>The fields of the standalone fast tasks hold what their probes returned.\<close>

lemma snapshot_fast_fields:
  assumes "GetSystemInfo w isFast = Inr info"
  shows "getShell w = Inr (Shell info) \<and> GPU info = getGPUInfo w \<and> Disk info = getDisk w \<and>
         IPAddress info = getIPAddress w \<and> getSystemLocale w = Inr (Locale info) \<and>
         Resolution info = getResolution w \<and> getWindowManager w = Inr (WindowManager info) \<and>
         DE info = getDesktopEnvironment w \<and> Terminal info = getTerminal w \<and>
         Go info = getGoVersion w \<and> Virtualization info = getVirtualization w"
proof -
  from snapshot_lookup [OF assms] obtain hw sh loc wm pk where
    hw: "gatherHostInfo w = Inr hw" and sh: "getShell w = Inr sh"
    and loc: "getSystemLocale w = Inr loc" and wm: "getWindowManager w = Inr wm"
    and look: "\<And>f. load f info =
                  (case map_of (pass_assignments hw w isFast sh loc wm pk) f of
                     Some v \<Rightarrow> v | None \<Rightarrow> [])"
    by blast
  note simps = map_of_host [OF hw] map_of_cpu map_of_memory fast_assignments_def
  have "Shell info = sh" using look [of F_Shell]
    unfolding pass_assignments_def lookup_append by (simp add: simps)
  moreover have "GPU info = getGPUInfo w" using look [of F_GPU]
    unfolding pass_assignments_def lookup_append by (simp add: simps)
  moreover have "Disk info = getDisk w" using look [of F_Disk]
    unfolding pass_assignments_def lookup_append by (simp add: simps)
  moreover have "IPAddress info = getIPAddress w" using look [of F_IPAddress]
    unfolding pass_assignments_def lookup_append by (simp add: simps)
  moreover have "Locale info = loc" using look [of F_Locale]
    unfolding pass_assignments_def lookup_append by (simp add: simps)
  moreover have "Resolution info = getResolution w"
    using look [of F_Resolution]
    unfolding pass_assignments_def lookup_append by (simp add: simps)
  moreover have "WindowManager info = wm" using look [of F_WindowManager]
    unfolding pass_assignments_def lookup_append by (simp add: simps)
  moreover have "DE info = getDesktopEnvironment w" using look [of F_DE]
    unfolding pass_assignments_def lookup_append by (simp add: simps)
  moreover have "Terminal info = getTerminal w" using look [of F_Terminal]
    unfolding pass_assignments_def lookup_append by (simp add: simps)
  moreover have "Go info = getGoVersion w" using look [of F_Go]
    unfolding pass_assignments_def lookup_append by (simp add: simps)
  moreover have "Virtualization info = getVirtualization w"
    using look [of F_Virtualization]
    unfolding pass_assignments_def lookup_append by (simp add: simps)
  ultimately show ?thesis using sh loc wm by simp
qed

subsection \<open>The two tiers\<close>

lemma map_of_cpu_modes:
  "f \<noteq> F_CPUUsage \<Longrightarrow> map_of (gatherCPUInfo w True) f = map_of (gatherCPUInfo w False) f"
  by (simp add: gatherCPUInfo_def map_add_def split: sum.splits list.splits)

lemma snapshot_slow_fields_fast:
  assumes "GetSystemInfo w True = Inr info"
  shows "CPUUsage info = [] \<and> OpenPorts info = [] \<and> Packages info = [] \<and>
         Languages info = [] \<and> Temperature info = []"
proof -
  from snapshot_lookup [OF assms] obtain hw sh loc wm pk where
    hw: "gatherHostInfo w = Inr hw"
    and look: "\<And>f. load f info =
                  (case map_of (pass_assignments hw w True sh loc wm pk) f of
                     Some v \<Rightarrow> v | None \<Rightarrow> [])"
    by blast
  note simps = map_of_host [OF hw] map_of_cpu map_of_memory fast_assignments_def
    map_of_cpu_usage_fast
  have "CPUUsage info = []" using look [of F_CPUUsage]
    unfolding pass_assignments_def lookup_append by (simp add: simps)
  moreover have "OpenPorts info = []" using look [of F_OpenPorts]
    unfolding pass_assignments_def lookup_append by (simp add: simps)
  moreover have "Packages info = []" using look [of F_Packages]
    unfolding pass_assignments_def lookup_append by (simp add: simps)
  moreover have "Languages info = []" using look [of F_Languages]
    unfolding pass_assignments_def lookup_append by (simp add: simps)
  moreover have "Temperature info = []" using look [of F_Temperature]
    unfolding pass_assignments_def lookup_append by (simp add: simps)
  ultimately show ?thesis by simp
qed

lemma snapshot_slow_fields_comprehensive:
  assumes "GetSystemInfo w False = Inr info"
  shows "CPUUsage info =
           (case cpu_Percent w of Inr (p # ps) \<Rightarrow> fmt_float w 1 p @ ''%'' | _ \<Rightarrow> ''N/A'') \<and>
         OpenPorts info = getOpenPorts w \<and> getPackageCounts w = Inr (Packages info) \<and>
         Languages info = getInstalledLanguages w \<and> Temperature info = getTemperatures w"
proof -
  from snapshot_lookup [OF assms] obtain hw sh loc wm pk where
    hw: "gatherHostInfo w = Inr hw" and pk: "getPackageCounts w = Inr pk"
    and look: "\<And>f. load f info =
                  (case map_of (pass_assignments hw w False sh loc wm pk) f of
                     Some v \<Rightarrow> v | None \<Rightarrow> [])"
    by blast
  note simps = map_of_host [OF hw] map_of_cpu map_of_memory fast_assignments_def
    slow_assignments_def map_of_cpu_usage_slow
  have "CPUUsage info =
          (case cpu_Percent w of Inr (p # ps) \<Rightarrow> fmt_float w 1 p @ ''%'' | _ \<Rightarrow> ''N/A'')"
    using look [of F_CPUUsage]
    unfolding pass_assignments_def lookup_append by (simp add: simps)
  moreover have "OpenPorts info = getOpenPorts w" using look [of F_OpenPorts]
    unfolding pass_assignments_def lookup_append by (simp add: simps)
  moreover have "Packages info = pk" using look [of F_Packages]
    unfolding pass_assignments_def lookup_append by (simp add: simps)
  moreover have "Languages info = getInstalledLanguages w" using look [of F_Languages]
    unfolding pass_assignments_def lookup_append by (simp add: simps)
  moreover have "Temperature info = getTemperatures w" using look [of F_Temperature]
    unfolding pass_assignments_def lookup_append by (simp add: simps)
  ultimately show ?thesis using pk by simp
qed

lemma snapshot_fast_tier_both_modes:
  assumes "GetSystemInfo w True = Inr info" and "GetSystemInfo w False = Inr info'"
    and "f \<notin> slow_fields"
  shows "load f info = load f info'"
proof -
  from snapshot_lookup [OF assms(1)] obtain hw sh loc wm pk where
    hw: "gatherHostInfo w = Inr hw" and sh: "getShell w = Inr sh"
    and loc: "getSystemLocale w = Inr loc" and wm: "getWindowManager w = Inr wm"
    and pk: "getPackageCounts w = Inr pk"
    and look: "\<And>f. load f info =
                  (case map_of (pass_assignments hw w True sh loc wm pk) f of
                     Some v \<Rightarrow> v | None \<Rightarrow> [])"
    by blast
  from snapshot_lookup [OF assms(2)] hw sh loc wm pk have
    look': "\<And>f. load f info' =
                  (case map_of (pass_assignments hw w False sh loc wm pk) f of
                     Some v \<Rightarrow> v | None \<Rightarrow> [])"
    by auto
  have cpu: "map_of (gatherCPUInfo w True) f = map_of (gatherCPUInfo w False) f"
    using assms(3) by (intro map_of_cpu_modes) (simp add: slow_fields_def)
  have slow: "map_of (slow_assignments w pk) f = None"
    using assms(3) by (simp add: slow_assignments_def slow_fields_def)
  show ?thesis
    unfolding look look' pass_assignments_def lookup_append cpu
    by (simp add: slow split: option.splits)
qed

lemma GetSystemInfo_returns_iff:
  "(\<exists>info. GetSystemInfo w isFast = Inr info) \<longleftrightarrow> (\<exists>wm. getWindowManager w = Inr wm)"
proof -
  have "(\<exists>info. GetSystemInfo w isFast = Inr info) \<longleftrightarrow> (\<forall>p. GetSystemInfo w isFast \<noteq> Inl p)"
    by (cases "GetSystemInfo w isFast") auto
  also have "\<dots> \<longleftrightarrow> (\<forall>p. getWindowManager w \<noteq> Inl p)"
    by (simp add: GetSystemInfo_panic_iff)
  also have "\<dots> \<longleftrightarrow> (\<exists>wm. getWindowManager w = Inr wm)"
    by (cases "getWindowManager w") auto
  finally show ?thesis .
qed

lemma tasks_modes:
  "tasks w True =
     [gatherHostInfo w, Inr (gatherCPUInfo w True), Inr (gatherMemoryInfo w)] @
     map (run_task w fastTaskFuncs) fastTasks \<and>
   tasks w False =
     [gatherHostInfo w, Inr (gatherCPUInfo w False), Inr (gatherMemoryInfo w)] @
     map (run_task w fastTaskFuncs) fastTasks @ map (run_task w slowTaskFuncs) slowTasks"
  by (simp add: tasks_def)

text \<open>
  Claim C3. In fast mode the fields CPU usage, open ports, package counts, installed
  languages and CPU temperature stay at the empty string of the fresh struct; in
  comprehensive mode they hold what their probes return; every other field has the same
  value in both modes; and a pass returns in one mode exactly when it returns in the other.
  The tasks of the fast tier are started in both modes, those of the slow tier in
  comprehensive mode only.
\<close>

theorem fast_mode_skips_slow_tier:
  "(GetSystemInfo w True = Inr info \<longrightarrow>
      CPUUsage info = [] \<and> OpenPorts info = [] \<and> Packages info = [] \<and>
      Languages info = [] \<and> Temperature info = []) \<and>
   (GetSystemInfo w False = Inr info' \<longrightarrow>
      CPUUsage info' =
        (case cpu_Percent w of Inr (p # ps) \<Rightarrow> fmt_float w 1 p @ ''%'' | _ \<Rightarrow> ''N/A'') \<and>
      OpenPorts info' = getOpenPorts w \<and> getPackageCounts w = Inr (Packages info') \<and>
      Languages info' = getInstalledLanguages w \<and> Temperature info' = getTemperatures w) \<and>
   (GetSystemInfo w True = Inr info \<and> GetSystemInfo w False = Inr info' \<longrightarrow>
      (\<forall>f. f \<notin> slow_fields \<longrightarrow> load f info = load f info')) \<and>
   ((\<exists>i. GetSystemInfo w True = Inr i) \<longleftrightarrow> (\<exists>i. GetSystemInfo w False = Inr i)) \<and>
   tasks w True =
     [gatherHostInfo w, Inr (gatherCPUInfo w True), Inr (gatherMemoryInfo w)] @
     map (run_task w fastTaskFuncs) fastTasks \<and>
   tasks w False =
     [gatherHostInfo w, Inr (gatherCPUInfo w False), Inr (gatherMemoryInfo w)] @
     map (run_task w fastTaskFuncs) fastTasks @ map (run_task w slowTaskFuncs) slowTasks"
  using snapshot_slow_fields_fast [of w info] snapshot_slow_fields_comprehensive [of w info']
    snapshot_fast_tier_both_modes [of w info info']
    GetSystemInfo_returns_iff [of w True] GetSystemInfo_returns_iff [of w False]
    tasks_modes [of w]
  by blast

theorem fast_mode_skips_slow_tier_witness:
  "GetSystemInfo desk_world True = Inr desk_fast_snapshot \<and>
   GetSystemInfo desk_world False = Inr desk_snapshot \<and>
   CPUUsage desk_fast_snapshot = [] \<and> OpenPorts desk_fast_snapshot = [] \<and>
   Packages desk_fast_snapshot = [] \<and> Languages desk_fast_snapshot = [] \<and>
   Temperature desk_fast_snapshot = [] \<and>
   OpenPorts desk_snapshot = getOpenPorts desk_world \<and>
   Languages desk_snapshot = getInstalledLanguages desk_world \<and>
   load F_Shell desk_fast_snapshot = load F_Shell desk_snapshot"
proof -
  have a: "GetSystemInfo desk_world True = Inr desk_fast_snapshot" by code_simp
  have b: "GetSystemInfo desk_world False = Inr desk_snapshot" by code_simp
  have c: "F_Shell \<notin> slow_fields" by (simp add: slow_fields_def)
  from fast_mode_skips_slow_tier [of desk_world desk_fast_snapshot desk_snapshot] a b c
  show ?thesis by blast
qed

subsection \<open>IP address\<close>

lemma first_external_ipv4_Some:
  "first_external_ipv4 addrs = Some s \<Longrightarrow>
     \<exists>ip. IPNet ip \<in> set addrs \<and> \<not> IsLoopback ip \<and> To4_ok ip \<and> s = IP_String ip"
  by (induction addrs rule: first_external_ipv4.induct) (auto split: if_splits)

lemma first_external_ipv4_None:
  "first_external_ipv4 addrs = None \<Longrightarrow>
     \<not> (\<exists>ip. IPNet ip \<in> set addrs \<and> \<not> IsLoopback ip \<and> To4_ok ip)"
  by (induction addrs rule: first_external_ipv4.induct) (auto split: if_splits)

lemma getIPAddress_nonempty:
  assumes "IP_String_nonempty w"
  shows "getIPAddress w \<noteq> []"
proof (cases "net_Dial w ''udp'' ''8.8.8.8:53''")
  case (Inr ip)
  with assms show ?thesis by (simp add: getIPAddress_def IP_String_nonempty_def)
next
  case dial: (Inl e)
  show ?thesis
  proof (cases "net_InterfaceAddrs w")
    case (Inl e')
    with dial show ?thesis by (simp add: getIPAddress_def)
  next
    case (Inr addrs)
    show ?thesis
    proof (cases "first_external_ipv4 addrs")
      case None
      with dial Inr show ?thesis by (simp add: getIPAddress_def)
    next
      case (Some s)
      from first_external_ipv4_Some [OF this] obtain ip where
        "IPNet ip \<in> set addrs" and "s = IP_String ip" by blast
      with assms Inr have "s \<noteq> []" by (auto simp: IP_String_nonempty_def)
      with dial Inr Some show ?thesis by (simp add: getIPAddress_def)
    qed
  qed
qed

text \<open>
  Claim C9. The IP-address probe never yields the empty string: it returns the local
  address of the dialled UDP connection; when the dial fails, the first interface address
  that is an IPv4 address and not a loopback address; and the literal \<open>127.0.0.1\<close> when
  there is none or the interfaces cannot be listed. The field \<open>IPAddress\<close> of every
  snapshot, in both modes, is that value.
\<close>

theorem IPAddress_never_absent:
  assumes "IP_String_nonempty w"
  shows "getIPAddress w \<noteq> [] \<and>
         (\<forall>ip. net_Dial w ''udp'' ''8.8.8.8:53'' = Inr ip \<longrightarrow> getIPAddress w = IP_String ip) \<and>
         (isl (net_Dial w ''udp'' ''8.8.8.8:53'') \<longrightarrow>
            (\<forall>addrs s. net_InterfaceAddrs w = Inr addrs \<and> first_external_ipv4 addrs = Some s
               \<longrightarrow> getIPAddress w = s) \<and>
            (\<forall>addrs. net_InterfaceAddrs w = Inr addrs \<and> first_external_ipv4 addrs = None
               \<longrightarrow> getIPAddress w = ''127.0.0.1'') \<and>
            (isl (net_InterfaceAddrs w) \<longrightarrow> getIPAddress w = ''127.0.0.1'')) \<and>
         (\<forall>isFast info. GetSystemInfo w isFast = Inr info \<longrightarrow>
            IPAddress info = getIPAddress w \<and> IPAddress info \<noteq> [])"
proof -
  have ne: "getIPAddress w \<noteq> []" by (rule getIPAddress_nonempty [OF assms])
  have dial: "\<forall>ip. net_Dial w ''udp'' ''8.8.8.8:53'' = Inr ip \<longrightarrow> getIPAddress w = IP_String ip"
    by (simp add: getIPAddress_def)
  have fallback: "isl (net_Dial w ''udp'' ''8.8.8.8:53'') \<longrightarrow>
            (\<forall>addrs s. net_InterfaceAddrs w = Inr addrs \<and> first_external_ipv4 addrs = Some s
               \<longrightarrow> getIPAddress w = s) \<and>
            (\<forall>addrs. net_InterfaceAddrs w = Inr addrs \<and> first_external_ipv4 addrs = None
               \<longrightarrow> getIPAddress w = ''127.0.0.1'') \<and>
            (isl (net_InterfaceAddrs w) \<longrightarrow> getIPAddress w = ''127.0.0.1'')"
    by (auto simp: getIPAddress_def isl_def)
  have snap: "\<forall>isFast info. GetSystemInfo w isFast = Inr info \<longrightarrow>
            IPAddress info = getIPAddress w \<and> IPAddress info \<noteq> []"
    using snapshot_fast_fields ne by metis
  from ne dial fallback snap show ?thesis by blast
qed

theorem IPAddress_never_absent_witness:
  "IP_String_nonempty offline_world \<and> getIPAddress offline_world = ''192.168.1.10'' \<and>
   getIPAddress offline_world \<noteq> [] \<and> getIPAddress bare_world = ''127.0.0.1''"
proof -
  have h: "IP_String_nonempty offline_world"
    by (auto simp: IP_String_nonempty_def offline_world_def desk_world_def bare_world_def)
  have v: "getIPAddress offline_world = ''192.168.1.10''" by code_simp
  have b: "getIPAddress bare_world = ''127.0.0.1''" by code_simp
  from IPAddress_never_absent [OF h] h v b show ?thesis by blast
qed

subsection \<open>Memory and swap\<close>

lemma swap_text_not_None: "swap_text w s \<noteq> ''None''"
proof
  assume "swap_text w s = ''None''"
  then have "length (swap_text w s) = length ''None''" by simp
  then show False by (simp add: swap_text_def)
qed

lemma map_of_swap:
  "map_of (gatherMemoryInfo w) F_Swap =
     Some (case mem_SwapMemory w of
             Inr s \<Rightarrow> if sw_Total s > 0 then swap_text w s else ''None''
           | Inl err \<Rightarrow> ''None'')"
  by (simp add: gatherMemoryInfo_def swap_text_def map_add_def split: sum.splits)

lemma map_of_ram:
  "map_of (gatherMemoryInfo w) F_RAM =
     (case mem_VirtualMemory w of
        Inr v \<Rightarrow> Some (fmt_float w 1 (gigabytes w (vm_Used v)) @ ''GB / '' @
                       fmt_float w 1 (gigabytes w (vm_Total v)) @ ''GB ('' @
                       fmt_float w 0 (vm_UsedPercent v) @ ''%)'')
      | Inl err \<Rightarrow> None)"
  by (simp add: gatherMemoryInfo_def map_add_def split: sum.splits)

lemma snapshot_memory_fields:
  assumes "GetSystemInfo w isFast = Inr info"
  shows "Swap info = (case mem_SwapMemory w of
                        Inr s \<Rightarrow> if sw_Total s > 0 then swap_text w s else ''None''
                      | Inl err \<Rightarrow> ''None'') \<and>
         RAM info = (case mem_VirtualMemory w of
                       Inr v \<Rightarrow> fmt_float w 1 (gigabytes w (vm_Used v)) @ ''GB / '' @
                                fmt_float w 1 (gigabytes w (vm_Total v)) @ ''GB ('' @
                                fmt_float w 0 (vm_UsedPercent v) @ ''%)''
                     | Inl err \<Rightarrow> [])"
proof -
  from snapshot_lookup [OF assms] obtain hw sh loc wm pk where
    hw: "gatherHostInfo w = Inr hw"
    and look: "\<And>f. load f info =
                  (case map_of (pass_assignments hw w isFast sh loc wm pk) f of
                     Some v \<Rightarrow> v | None \<Rightarrow> [])"
    by blast
  note simps = map_of_host [OF hw] map_of_cpu map_of_swap map_of_ram fast_assignments_def
    slow_assignments_def
  have "Swap info = (case mem_SwapMemory w of
                        Inr s \<Rightarrow> if sw_Total s > 0 then swap_text w s else ''None''
                      | Inl err \<Rightarrow> ''None'')"
    using look [of F_Swap]
    unfolding pass_assignments_def lookup_append by (simp add: simps)
  moreover have "RAM info = (case mem_VirtualMemory w of
                       Inr v \<Rightarrow> fmt_float w 1 (gigabytes w (vm_Used v)) @ ''GB / '' @
                                fmt_float w 1 (gigabytes w (vm_Total v)) @ ''GB ('' @
                                fmt_float w 0 (vm_UsedPercent v) @ ''%)''
                     | Inl err \<Rightarrow> [])"
    using look [of F_RAM]
    unfolding pass_assignments_def lookup_append
    by (cases isFast; cases "mem_VirtualMemory w") (simp_all add: simps)
  ultimately show ?thesis by simp
qed

text \<open>
  Claim C10. The field \<open>Swap\<close> is \<open>None\<close> exactly when the swap query fails or the
  total swap size is zero; when the total is positive it is used and total gigabytes with the
  usage percentage (\<open>swap_text\<close>); and when the virtual-memory query fails the field
  \<open>RAM\<close> keeps the empty string.
\<close>

theorem swap_None_iff_no_swap:
  assumes "GetSystemInfo w isFast = Inr info"
  shows "(Swap info = ''None'' \<longleftrightarrow>
            isl (mem_SwapMemory w) \<or> (\<exists>s. mem_SwapMemory w = Inr s \<and> sw_Total s = 0)) \<and>
         (\<forall>s. mem_SwapMemory w = Inr s \<and> sw_Total s > 0 \<longrightarrow> Swap info = swap_text w s) \<and>
         (isl (mem_VirtualMemory w) \<longrightarrow> RAM info = [])"
proof -
  note m = snapshot_memory_fields [OF assms]
  have swap: "Swap info = (case mem_SwapMemory w of
                        Inr s \<Rightarrow> if sw_Total s > 0 then swap_text w s else ''None''
                      | Inl err \<Rightarrow> ''None'')"
    using m by (rule conjunct1)
  have ram: "isl (mem_VirtualMemory w) \<longrightarrow> RAM info = []"
    using m by (auto simp: isl_def)
  have a: "Swap info = ''None'' \<longleftrightarrow>
            isl (mem_SwapMemory w) \<or> (\<exists>s. mem_SwapMemory w = Inr s \<and> sw_Total s = 0)"
  proof (cases "mem_SwapMemory w")
    case (Inl e)
    then show ?thesis unfolding swap by simp
  next
    case (Inr s)
    then show ?thesis unfolding swap
      using swap_text_not_None [of w s] by (simp add: word_greater_zero_iff)
  qed
  have b: "\<forall>s. mem_SwapMemory w = Inr s \<and> sw_Total s > 0 \<longrightarrow> Swap info = swap_text w s"
    unfolding swap by simp
  from a b ram show ?thesis by blast
qed

theorem swap_None_iff_no_swap_witness:
  "GetSystemInfo desk_world True = Inr desk_fast_snapshot \<and>
   Swap desk_fast_snapshot = ''0GB / 2GB (0%)'' \<and>
   Swap desk_fast_snapshot = swap_text desk_world \<lparr>sw_Total = 2147483648, sw_Used = 0, sw_UsedPercent = 0\<rparr> \<and>
   \<not> isl (mem_SwapMemory desk_world) \<and> Swap desk_fast_snapshot \<noteq> ''None''"
proof -
  have a: "GetSystemInfo desk_world True = Inr desk_fast_snapshot" by code_simp
  have s: "mem_SwapMemory desk_world
      = Inr \<lparr>sw_Total = 2147483648, sw_Used = 0, sw_UsedPercent = 0\<rparr>"
    by (simp add: desk_world_def)
  have p: "sw_Total \<lparr>sw_Total = 2147483648, sw_Used = 0, sw_UsedPercent = 0\<rparr> > (0 :: 64 word)"
    by simp
  have v: "Swap desk_fast_snapshot = ''0GB / 2GB (0%)''" by (simp add: desk_fast_snapshot_def)
  have n: "\<not> isl (mem_SwapMemory desk_world)" by (simp add: s)
  from swap_None_iff_no_swap [OF a] s p
  have "Swap desk_fast_snapshot
      = swap_text desk_world \<lparr>sw_Total = 2147483648, sw_Used = 0, sw_UsedPercent = 0\<rparr>"
    by blast
  moreover from swap_None_iff_no_swap [OF a] s p n have "Swap desk_fast_snapshot \<noteq> ''None''"
    by auto
  ultimately show ?thesis using a v n by blast
qed

subsection \<open>Tasks and fields\<close>

lemma concat_singletons: "concat (map (\<lambda>a. [a]) xs) = xs"
  by (induction xs) simp_all

text \<open>
  Claim C4, as the code has it. In a collection pass every field is assigned at most once
  and by one task only, so any order of the assignments gives the snapshot that is
  returned, and the snapshot is the fresh struct with exactly these assignments. Each of
  the standalone tasks (all but the first three) makes exactly one assignment; the three
  grouped tasks assign several fields: the host task up to four, the CPU task up to four,
  the memory task up to two.
\<close>

theorem every_field_written_once:
  assumes "GetSystemInfo w isFast = Inr info"
  shows "\<exists>wss. join_all (tasks w isFast) = Inr wss \<and>
           distinct (map fst (concat wss)) \<and>
           (\<forall>ws'. mset ws' = mset (concat wss) \<longrightarrow> fold store ws' zero_SystemInfo = info) \<and>
           length wss = (if isFast then 14 else 18) \<and>
           (\<forall>i. 3 \<le> i \<and> i < length wss \<longrightarrow> length (wss ! i) = 1) \<and>
           set (map fst (wss ! 0)) \<subseteq> {F_Uptime, F_OS, F_Kernel, F_Hostname} \<and>
           set (map fst (wss ! 1)) \<subseteq> {F_CPU, F_CPUSpeed, F_CoresThreads, F_CPUUsage} \<and>
           set (map fst (wss ! 2)) \<subseteq> {F_RAM, F_Swap}"
proof -
  from GetSystemInfo_assignments [OF assms] obtain hw sh loc wm pk where
    hw: "gatherHostInfo w = Inr hw"
    and j: "join_all (tasks w isFast) =
             Inr ([hw, gatherCPUInfo w isFast, gatherMemoryInfo w] @
                  map (\<lambda>a. [a]) (fast_assignments w sh loc wm) @
                  (if isFast then [] else map (\<lambda>a. [a]) (slow_assignments w pk)))"
    and info: "info = fold store
                    (hw @ gatherCPUInfo w isFast @ gatherMemoryInfo w @
                     fast_assignments w sh loc wm @
                     (if isFast then [] else slow_assignments w pk))
                    zero_SystemInfo"
    by blast
  let ?wss = "[hw, gatherCPUInfo w isFast, gatherMemoryInfo w] @
                  map (\<lambda>a. [a]) (fast_assignments w sh loc wm) @
                  (if isFast then [] else map (\<lambda>a. [a]) (slow_assignments w pk))"
  let ?all = "hw @ gatherCPUInfo w isFast @ gatherMemoryInfo w @
                     fast_assignments w sh loc wm @
                     (if isFast then [] else slow_assignments w pk)"
  have c: "concat ?wss = ?all"
    by (simp add: concat_singletons)
  have d: "distinct (map fst (concat ?wss))"
    unfolding c by (rule distinct_assignments [OF hw])
  have p: "\<forall>ws'. mset ws' = mset (concat ?wss) \<longrightarrow> fold store ws' zero_SystemInfo = info"
    unfolding info c [symmetric] using fold_store_perm [OF d] by blast
  have l: "length ?wss = (if isFast then 14 else 18)"
    by (simp add: fast_assignments_def slow_assignments_def)
  have s: "\<forall>i. 3 \<le> i \<and> i < length ?wss \<longrightarrow> length (?wss ! i) = 1"
  proof (intro allI impI)
    fix i assume i: "3 \<le> i \<and> i < length ?wss"
    let ?tail = "map (\<lambda>a. [a]) (fast_assignments w sh loc wm) @
                  (if isFast then [] else map (\<lambda>a. [a]) (slow_assignments w pk))"
    have t: "?tail = map (\<lambda>a. [a]) (fast_assignments w sh loc wm @
                  (if isFast then [] else slow_assignments w pk))"
      by simp
    from i obtain k where k: "i = 3 + k" by (auto simp: le_iff_add)
    have "?wss ! (3 + k) = ?tail ! k"
      by (simp add: numeral_3_eq_3)
    moreover from i k have "k < length ?tail" by auto
    ultimately show "length (?wss ! i) = 1"
      unfolding k t by (simp del: map_append)
  qed
  have h0: "set (map fst (?wss ! 0)) \<subseteq> {F_Uptime, F_OS, F_Kernel, F_Hostname}"
    using host_fields_cases [OF hw] by auto
  have h1: "set (map fst (?wss ! 1)) \<subseteq> {F_CPU, F_CPUSpeed, F_CoresThreads, F_CPUUsage}"
    by (auto simp: gatherCPUInfo_def split: sum.splits list.splits if_splits)
  have h2: "set (map fst (?wss ! 2)) \<subseteq> {F_RAM, F_Swap}"
    by (auto simp: gatherMemoryInfo_def split: sum.splits)
  from j d p l s h0 h1 h2 show ?thesis by blast
qed

theorem every_field_written_once_witness:
  "GetSystemInfo desk_world False = Inr desk_snapshot \<and>
   (\<exists>wss. join_all (tasks desk_world False) = Inr wss \<and> distinct (map fst (concat wss)) \<and>
      length wss = 18 \<and> fold store (rev (concat wss)) zero_SystemInfo = desk_snapshot)"
proof -
  have b: "GetSystemInfo desk_world False = Inr desk_snapshot" by code_simp
  from every_field_written_once [OF b] obtain wss where
    "join_all (tasks desk_world False) = Inr wss" and "distinct (map fst (concat wss))"
    and p: "\<forall>ws'. mset ws' = mset (concat wss)
              \<longrightarrow> fold store ws' zero_SystemInfo = desk_snapshot"
    and "length wss = (if False then 14 else 18)"
    by blast
  moreover have "mset (rev (concat wss)) = mset (concat wss)" by simp
  with p have "fold store (rev (concat wss)) zero_SystemInfo = desk_snapshot" by blast
  ultimately show ?thesis using b by auto
qed

text \<open>
  The claim as stated fails where it maps each probe to exactly one field: the host task
  assigns four fields.
\<close>

theorem gatherHostInfo_four_fields_counterexample:
  "gatherHostInfo desk_world =
     Inr [(F_Uptime, ''1 days, 2 hours''), (F_OS, ''Ubuntu 22.04.3 LTS''),
          (F_Kernel, ''Ubuntu 5.15.0-91-generic''), (F_Hostname, ''desk'')]"
  by code_simp

subsection \<open>Where a pass panics; package counts on Windows\<close>

text \<open>
  Claim C2 at the input where the code parts from it. On a Linux host without a Wayland or
  desktop session variable, the window-manager probe takes the second piece of the output
  of \<open>wmctrl -m | grep 'Name:'\<close> split at colons, without checking that there is one.
  When the command prints text without a colon (here \<open>1\<close>, what a grep that counts
  matches prints), the index is out of range and the panic ends the collection in both
  modes.
\<close>

theorem collect_panics_on_unparsed_window_manager:
  "getWindowManager grep_count_world = Inl IndexOutOfRange \<and>
   GetSystemInfo grep_count_world True = Inl IndexOutOfRange \<and>
   GetSystemInfo grep_count_world False = Inl IndexOutOfRange"
  by code_simp

text \<open>This is the only way for the probe, and by \<open>GetSystemInfo_panic_iff\<close> for a pass, to panic.\<close>

lemma getWindowManager_panic_iff:
  "getWindowManager w = Inl p \<longleftrightarrow>
     p = IndexOutOfRange \<and> GOOS w = ''linux'' \<and>
     \<not> (Getenv w ''WAYLAND_DISPLAY'' \<noteq> [] \<and> Getenv w ''XDG_SESSION_TYPE'' = ''wayland'') \<and>
     Getenv w ''DESKTOP_SESSION'' = [] \<and>
     runShellCommand w (''wmctrl -m | grep '' @ sq @ ''Name:'' @ sq) \<noteq> [] \<and>
     length (Split (runShellCommand w (''wmctrl -m | grep '' @ sq @ ''Name:'' @ sq)) '':'') < 2"
  unfolding getWindowManager_def Let_def index_def
  by (auto simp: pbind_def)

text \<open>
  Claim C5 at the input where the code parts from it. On Windows the word looked up on the
  search path is \<open>(choco\<close>, the first word of the PowerShell expression, and the guard
  \<open>baseCmd != "("\<close> never exempts it: the manager is skipped although \<open>choco\<close> is
  resolvable and its count command prints 120.
\<close>

theorem getPackageCounts_windows_skips_resolvable:
  "\<not> isl (LookPath choco_world ''choco'') \<and>
   runShellCommand choco_world ''(choco list -l | Measure-Object).Count'' = ''120'' \<and>
   getPackageCounts choco_world = Inr ''None detected''"
  by code_simp

text \<open>
  On Windows no manager is counted unless a file named like \<open>(choco\<close> is on the search
  path. With managers whose command starts with the name of the executable the probe does
  what the claim says: the unresolvable one is left out, the other is reported with its
  count, for any order in which the goroutines send.
\<close>

lemma getPackageCounts_windows:
  assumes "GOOS w = ''windows''"
    and "isl (LookPath w ''(choco'')" and "isl (LookPath w ''(winget'')"
    and "isl (LookPath w ''(scoop'')"
  shows "getPackageCounts w = Inr ''None detected''"
  using assms
  by (simp add: getPackageCounts_def count_packages_windows check_manager_def
      packages_report_def)

lemma count_packages_example:
  "count_packages two_manager_world two_managers = Inr ''Manager1 (120)''"
  by code_simp

lemma packages_report_perm:
  assumes "mset sent' = mset sent"
  shows "packages_report sent' = packages_report sent"
proof -
  have "sort sent' = sort sent"
    using assms by (intro properties_for_sort) simp_all
  then show ?thesis by (simp add: packages_report_def)
qed

subsection \<open>Installed languages\<close>

lemma sort_langs: "sort langs = [''Go'', ''Java'', ''Node'', ''PHP'', ''Python'', ''Ruby'', ''Rust'']"
  by code_simp

lemma langs_cmds:
  "map lookup_cmd langs = [''python3'', ''go'', ''node'', ''rustc'', ''java'', ''ruby'', ''php'']"
  by code_simp

lemma languages_report_perm:
  assumes "mset installed = mset installed'"
  shows "languages_report installed = languages_report installed'"
proof -
  have "sort installed = sort installed'"
    using assms by (intro properties_for_sort) simp_all
  then show ?thesis by (simp add: languages_report_def)
qed

lemma sort_found_languages:
  "sort (found_languages w langs) =
     found_languages w [''Go'', ''Java'', ''Node'', ''PHP'', ''Python'', ''Ruby'', ''Rust'']"
  unfolding found_languages_def filter_sort [symmetric] sort_langs ..

text \<open>
  Claim C7. The installed-languages probe looks up the executables of exactly the seven
  candidates Python, Go, Node, Rust, Java, Ruby and PHP (\<open>python3\<close>, \<open>go\<close>,
  \<open>node\<close>, \<open>rustc\<close>, \<open>java\<close>, \<open>ruby\<close>, \<open>php\<close>) and reports the ones found in
  sorted order, joined by a comma and a space, or \<open>None\<close> when none is found; the order in
  which the goroutines append does not matter.
\<close>

theorem getInstalledLanguages_sorted_found:
  "getInstalledLanguages w =
     (let found = found_languages w [''Go'', ''Java'', ''Node'', ''PHP'', ''Python'', ''Ruby'', ''Rust'']
      in if found = [] then ''None'' else Join found '', '') \<and>
   (\<forall>installed. mset installed = mset (found_languages w langs)
      \<longrightarrow> languages_report installed = getInstalledLanguages w) \<and>
   set langs = {''Python'', ''Go'', ''Node'', ''Rust'', ''Java'', ''Ruby'', ''PHP''} \<and>
   map lookup_cmd langs = [''python3'', ''go'', ''node'', ''rustc'', ''java'', ''ruby'', ''php''] \<and>
   sorted [''Go'', ''Java'', ''Node'', ''PHP'', ''Python'', ''Ruby'', ''Rust'']"
proof -
  have g: "getInstalledLanguages w = languages_report (found_languages w langs)"
    by (simp add: getInstalledLanguages_def found_languages_def)
  have a: "getInstalledLanguages w =
     (let found = found_languages w [''Go'', ''Java'', ''Node'', ''PHP'', ''Python'', ''Ruby'', ''Rust'']
      in if found = [] then ''None'' else Join found '', '')"
    unfolding g languages_report_def sort_found_languages by (simp add: Let_def)
  have b: "\<forall>installed. mset installed = mset (found_languages w langs)
      \<longrightarrow> languages_report installed = getInstalledLanguages w"
    unfolding g using languages_report_perm by blast
  have c: "set langs = {''Python'', ''Go'', ''Node'', ''Rust'', ''Java'', ''Ruby'', ''PHP''}"
    by (simp add: langs_def)
  have "sorted (sort langs)" by simp
  then have d: "sorted [''Go'', ''Java'', ''Node'', ''PHP'', ''Python'', ''Ruby'', ''Rust'']"
    unfolding sort_langs .
  from a b c langs_cmds d show ?thesis by blast
qed

theorem getInstalledLanguages_sorted_found_witness:
  "mset [''Go'', ''Python''] = mset (found_languages desk_world langs) \<and>
   languages_report [''Go'', ''Python''] = getInstalledLanguages desk_world \<and>
   getInstalledLanguages desk_world = ''Go, Python'' \<and>
   getInstalledLanguages bare_world = ''None''"
proof -
  have h: "mset [''Go'', ''Python''] = mset (found_languages desk_world langs)" by code_simp
  have v: "getInstalledLanguages desk_world = ''Go, Python''" by code_simp
  have n: "getInstalledLanguages bare_world = ''None''" by code_simp
  from getInstalledLanguages_sorted_found [of desk_world] h
  have "languages_report [''Go'', ''Python''] = getInstalledLanguages desk_world" by blast
  with h v n show ?thesis by blast
qed

subsection \<open>Environment variables\<close>

lemma env_update_simps:
  "Getenv (w\<lparr>Getenv := e\<rparr>) = e"
  "GOOS (w\<lparr>Getenv := e\<rparr>) = GOOS w"
  "runtime_Version (w\<lparr>Getenv := e\<rparr>) = runtime_Version w"
  "LookPath (w\<lparr>Getenv := e\<rparr>) = LookPath w"
  "cmd_Output (w\<lparr>Getenv := e\<rparr>) = cmd_Output w"
  "ReadFile (w\<lparr>Getenv := e\<rparr>) = ReadFile w"
  "os_Hostname (w\<lparr>Getenv := e\<rparr>) = os_Hostname w"
  "cpu_Info (w\<lparr>Getenv := e\<rparr>) = cpu_Info w"
  "cpu_Counts (w\<lparr>Getenv := e\<rparr>) = cpu_Counts w"
  "cpu_Percent (w\<lparr>Getenv := e\<rparr>) = cpu_Percent w"
  "mem_VirtualMemory (w\<lparr>Getenv := e\<rparr>) = mem_VirtualMemory w"
  "mem_SwapMemory (w\<lparr>Getenv := e\<rparr>) = mem_SwapMemory w"
  "disk_Usage (w\<lparr>Getenv := e\<rparr>) = disk_Usage w"
  "host_Info (w\<lparr>Getenv := e\<rparr>) = host_Info w"
  "host_PlatformInformation (w\<lparr>Getenv := e\<rparr>) = host_PlatformInformation w"
  "host_Virtualization (w\<lparr>Getenv := e\<rparr>) = host_Virtualization w"
  "host_SensorsTemperatures (w\<lparr>Getenv := e\<rparr>) = host_SensorsTemperatures w"
  "psnet_Connections (w\<lparr>Getenv := e\<rparr>) = psnet_Connections w"
  "net_Dial (w\<lparr>Getenv := e\<rparr>) = net_Dial w"
  "net_InterfaceAddrs (w\<lparr>Getenv := e\<rparr>) = net_InterfaceAddrs w"
  "Duration_Hours (w\<lparr>Getenv := e\<rparr>) = Duration_Hours w"
  "Duration_Minutes (w\<lparr>Getenv := e\<rparr>) = Duration_Minutes w"
  "float_of_uint64 (w\<lparr>Getenv := e\<rparr>) = float_of_uint64 w"
  "float_of_const (w\<lparr>Getenv := e\<rparr>) = float_of_const w"
  "float_div (w\<lparr>Getenv := e\<rparr>) = float_div w"
  "float_less (w\<lparr>Getenv := e\<rparr>) = float_less w"
  "int_of_float (w\<lparr>Getenv := e\<rparr>) = int_of_float w"
  "fmt_float (w\<lparr>Getenv := e\<rparr>) = fmt_float w"
  "unicode_ToLower (w\<lparr>Getenv := e\<rparr>) = unicode_ToLower w"
  "unicode_Title (w\<lparr>Getenv := e\<rparr>) = unicode_Title w"
  by simp_all

lemma env_update_helpers:
  "ToLower (w\<lparr>Getenv := e\<rparr>) = ToLower w"
  "Title (w\<lparr>Getenv := e\<rparr>) = Title w"
  "runCommand (w\<lparr>Getenv := e\<rparr>) = runCommand w"
  "runShellCommand (w\<lparr>Getenv := e\<rparr>) = runShellCommand w"
  "gigabytes (w\<lparr>Getenv := e\<rparr>) = gigabytes w"
  "degrees (w\<lparr>Getenv := e\<rparr>) = degrees w"
  by (simp_all add: fun_eq_iff ToLower_def Title_def runCommand_def runShellCommand_def
      gigabytes_def degrees_def)

lemma same_but_GetenvE:
  assumes "same_but_Getenv w w'"
  obtains e where "w' = w\<lparr>Getenv := e\<rparr>"
  using assms unfolding same_but_Getenv_def by blast

lemma getShell_same_but_Getenv:
  assumes "same_but_Getenv w w'"
    and "\<forall>k \<in> {''SHELL'', ''PSModulePath'', ''ComSpec'', ''WT_SESSION''}. Getenv w' k = Getenv w k"
  shows "getShell w' = getShell w"
proof -
  from assms(1) obtain e where w': "w' = w\<lparr>Getenv := e\<rparr>" by (rule same_but_GetenvE)
  from assms(2) have "e ''SHELL'' = Getenv w ''SHELL''"
    "e ''PSModulePath'' = Getenv w ''PSModulePath''"
    "e ''ComSpec'' = Getenv w ''ComSpec''"
    "e ''WT_SESSION'' = Getenv w ''WT_SESSION''"
    unfolding w' by (simp_all only: env_update_simps ball_simps insert_iff simp_thms)
  then show ?thesis
    unfolding w' getShell_def by (simp only: env_update_simps env_update_helpers)
qed

lemma getTerminal_same_but_Getenv:
  assumes "same_but_Getenv w w'"
    and "\<forall>k \<in> {''TERM_PROGRAM'', ''TERM''}. Getenv w' k = Getenv w k"
  shows "getTerminal w' = getTerminal w"
proof -
  from assms(1) obtain e where w': "w' = w\<lparr>Getenv := e\<rparr>" by (rule same_but_GetenvE)
  from assms(2) have "e ''TERM_PROGRAM'' = Getenv w ''TERM_PROGRAM''"
    "e ''TERM'' = Getenv w ''TERM''"
    unfolding w' by (simp_all only: env_update_simps ball_simps insert_iff simp_thms)
  then show ?thesis
    unfolding w' getTerminal_def by (simp only: env_update_simps env_update_helpers)
qed

lemma getSystemLocale_same_but_Getenv:
  assumes "same_but_Getenv w w'"
    and "\<forall>k \<in> {''LANG'', ''LC_ALL''}. Getenv w' k = Getenv w k"
  shows "getSystemLocale w' = getSystemLocale w"
proof -
  from assms(1) obtain e where w': "w' = w\<lparr>Getenv := e\<rparr>" by (rule same_but_GetenvE)
  from assms(2) have "e ''LANG'' = Getenv w ''LANG''" "e ''LC_ALL'' = Getenv w ''LC_ALL''"
    unfolding w' by (simp_all only: env_update_simps ball_simps insert_iff simp_thms)
  then show ?thesis
    unfolding w' getSystemLocale_def by (simp only: env_update_simps env_update_helpers)
qed

lemma getResolution_same_but_Getenv:
  assumes "same_but_Getenv w w'"
    and "\<forall>k \<in> {''DISPLAY'', ''WAYLAND_DISPLAY''}. Getenv w' k = Getenv w k"
  shows "getResolution w' = getResolution w"
proof -
  from assms(1) obtain e where w': "w' = w\<lparr>Getenv := e\<rparr>" by (rule same_but_GetenvE)
  from assms(2) have "e ''DISPLAY'' = Getenv w ''DISPLAY''"
    "e ''WAYLAND_DISPLAY'' = Getenv w ''WAYLAND_DISPLAY''"
    unfolding w' by (simp_all only: env_update_simps ball_simps insert_iff simp_thms)
  then show ?thesis
    unfolding w' getResolution_def by (simp only: env_update_simps env_update_helpers)
qed

lemma getWindowManager_same_but_Getenv:
  assumes "same_but_Getenv w w'"
    and "\<forall>k \<in> {''WAYLAND_DISPLAY'', ''XDG_SESSION_TYPE'', ''XDG_CURRENT_DESKTOP'',
                ''DESKTOP_SESSION''}. Getenv w' k = Getenv w k"
  shows "getWindowManager w' = getWindowManager w"
proof -
  from assms(1) obtain e where w': "w' = w\<lparr>Getenv := e\<rparr>" by (rule same_but_GetenvE)
  from assms(2) have "e ''WAYLAND_DISPLAY'' = Getenv w ''WAYLAND_DISPLAY''"
    "e ''XDG_SESSION_TYPE'' = Getenv w ''XDG_SESSION_TYPE''"
    "e ''XDG_CURRENT_DESKTOP'' = Getenv w ''XDG_CURRENT_DESKTOP''"
    "e ''DESKTOP_SESSION'' = Getenv w ''DESKTOP_SESSION''"
    unfolding w' by (simp_all only: env_update_simps ball_simps insert_iff simp_thms)
  then show ?thesis
    unfolding w' getWindowManager_def by (simp only: env_update_simps env_update_helpers)
qed

lemma getDesktopEnvironment_same_but_Getenv:
  assumes "same_but_Getenv w w'"
    and "\<forall>k \<in> {''XDG_CURRENT_DESKTOP'', ''DESKTOP_SESSION''}. Getenv w' k = Getenv w k"
  shows "getDesktopEnvironment w' = getDesktopEnvironment w"
proof -
  from assms(1) obtain e where w': "w' = w\<lparr>Getenv := e\<rparr>" by (rule same_but_GetenvE)
  from assms(2) have "e ''XDG_CURRENT_DESKTOP'' = Getenv w ''XDG_CURRENT_DESKTOP''"
    "e ''DESKTOP_SESSION'' = Getenv w ''DESKTOP_SESSION''"
    unfolding w' by (simp_all only: env_update_simps ball_simps insert_iff simp_thms)
  then show ?thesis
    unfolding w' getDesktopEnvironment_def by (simp only: env_update_simps env_update_helpers)
qed

lemma other_probes_env_update:
  "getGPUInfo (w\<lparr>Getenv := e\<rparr>) = getGPUInfo w"
  "getDisk (w\<lparr>Getenv := e\<rparr>) = getDisk w"
  "getIPAddress (w\<lparr>Getenv := e\<rparr>) = getIPAddress w"
  "getGoVersion (w\<lparr>Getenv := e\<rparr>) = getGoVersion w"
  "getVirtualization (w\<lparr>Getenv := e\<rparr>) = getVirtualization w"
  "getOpenPorts (w\<lparr>Getenv := e\<rparr>) = getOpenPorts w"
  "getInstalledLanguages (w\<lparr>Getenv := e\<rparr>) = getInstalledLanguages w"
  "getTemperatures (w\<lparr>Getenv := e\<rparr>) = getTemperatures w"
  "getCPUInfoDetailed (w\<lparr>Getenv := e\<rparr>) = getCPUInfoDetailed w"
  "gatherCPUInfo (w\<lparr>Getenv := e\<rparr>) isFast = gatherCPUInfo w isFast"
  "gatherMemoryInfo (w\<lparr>Getenv := e\<rparr>) = gatherMemoryInfo w"
  unfolding getGPUInfo_def getDisk_def getIPAddress_def getGoVersion_def getVirtualization_def
    getOpenPorts_def getInstalledLanguages_def getTemperatures_def getCPUInfoDetailed_def
    gatherCPUInfo_def gatherMemoryInfo_def
  by (simp_all only: env_update_simps env_update_helpers)

lemma getOSInfo_env_update: "getOSInfo (w\<lparr>Getenv := e\<rparr>) = getOSInfo w"
  unfolding getOSInfo_def by (simp only: env_update_simps env_update_helpers)

lemma gatherHostInfo_env_update: "gatherHostInfo (w\<lparr>Getenv := e\<rparr>) = gatherHostInfo w"
  unfolding gatherHostInfo_def
  by (simp only: env_update_simps env_update_helpers getOSInfo_env_update)

lemma getPackageCounts_env_update: "getPackageCounts (w\<lparr>Getenv := e\<rparr>) = getPackageCounts w"
  unfolding getPackageCounts_def count_packages_def package_checker_def check_manager_def
  by (simp only: env_update_simps env_update_helpers)

lemma reads_with_Getenv_only:
  assumes "\<And>w w'. same_but_Getenv w w' \<Longrightarrow> \<forall>k \<in> S. Getenv w' k = Getenv w k \<Longrightarrow> probe w' = probe w"
    and "reads_with_Getenv probe name"
  shows "name \<in> S"
proof (rule ccontr)
  assume n: "name \<notin> S"
  from assms(2) have "\<exists>w w'. same_but_Getenv w w' \<and>
      (\<forall>k. k \<noteq> name \<longrightarrow> Getenv w' k = Getenv w k) \<and> probe w' \<noteq> probe w"
    unfolding reads_with_Getenv_def .
  then obtain w w' where s: "same_but_Getenv w w'"
    and k: "\<forall>k. k \<noteq> name \<longrightarrow> Getenv w' k = Getenv w k" and d: "probe w' \<noteq> probe w"
    by (elim exE conjE)
  have "\<forall>k \<in> S. Getenv w' k = Getenv w k"
  proof
    fix x assume "x \<in> S"
    with n have "x \<noteq> name" by (rule_tac notI) simp
    with k show "Getenv w' x = Getenv w x" by simp
  qed
  with s have "probe w' = probe w" by (rule assms(1))
  with d show False by (rule notE)
qed

lemma reads_with_Getenv_none:
  assumes "\<And>w e. probe (w\<lparr>Getenv := e\<rparr>) = probe w"
  shows "\<not> reads_with_Getenv probe name"
proof
  assume "reads_with_Getenv probe name"
  then obtain w w' where s: "same_but_Getenv w w'" and d: "probe w' \<noteq> probe w"
    unfolding reads_with_Getenv_def by blast
  from s obtain e where w': "w' = w\<lparr>Getenv := e\<rparr>" by (rule same_but_GetenvE)
  have "probe w' = probe w" unfolding w' by (rule assms)
  with d show False by (rule notE)
qed

lemma reads_with_GetenvI:
  assumes "probe (w\<lparr>Getenv := (Getenv w)(name := v)\<rparr>) \<noteq> probe w"
  shows "reads_with_Getenv probe name"
proof -
  define w' where "w' = w\<lparr>Getenv := (Getenv w)(name := v)\<rparr>"
  have g: "Getenv w' = (Getenv w)(name := v)" unfolding w'_def by (rule env_update_simps(1))
  have a: "same_but_Getenv w w'" unfolding same_but_Getenv_def g by (rule w'_def)
  have b: "\<forall>k. k \<noteq> name \<longrightarrow> Getenv w' k = Getenv w k" unfolding g by simp
  have c: "probe w' \<noteq> probe w" unfolding w'_def by (rule assms)
  show ?thesis unfolding reads_with_Getenv_def
    by (rule exI [of _ w], rule exI [of _ w'], intro conjI a b c)
qed

lemma getShell_reads:
  "reads_with_Getenv getShell ''SHELL''"
  "reads_with_Getenv getShell ''PSModulePath''"
  "reads_with_Getenv getShell ''ComSpec''"
  "reads_with_Getenv getShell ''WT_SESSION''"
proof -
  show "reads_with_Getenv getShell ''SHELL''"
    by (rule reads_with_GetenvI [where w = bare_world and v = "''/bin/zsh''"]) code_simp
  show "reads_with_Getenv getShell ''PSModulePath''"
    by (rule reads_with_GetenvI [where w = windows_world and v = "''Modules''"]) code_simp
  show "reads_with_Getenv getShell ''ComSpec''"
    by (rule reads_with_GetenvI [where w = windows_world and v = "''cmd.exe''"]) code_simp
  show "reads_with_Getenv getShell ''WT_SESSION''"
    by (rule reads_with_GetenvI [where w = windows_world and v = "''1''"]) code_simp
qed

lemma getTerminal_reads:
  "reads_with_Getenv getTerminal ''TERM_PROGRAM''"
  "reads_with_Getenv getTerminal ''TERM''"
proof -
  show "reads_with_Getenv getTerminal ''TERM_PROGRAM''"
    by (rule reads_with_GetenvI [where w = bare_world and v = "''iTerm.app''"]) code_simp
  show "reads_with_Getenv getTerminal ''TERM''"
    by (rule reads_with_GetenvI [where w = bare_world and v = "''alacritty''"]) code_simp
qed

lemma getSystemLocale_reads:
  "reads_with_Getenv getSystemLocale ''LANG''"
  "reads_with_Getenv getSystemLocale ''LC_ALL''"
proof -
  show "reads_with_Getenv getSystemLocale ''LANG''"
    by (rule reads_with_GetenvI [where w = bare_world and v = "''en_US.UTF-8''"]) code_simp
  show "reads_with_Getenv getSystemLocale ''LC_ALL''"
    by (rule reads_with_GetenvI [where w = bare_world and v = "''C''"]) code_simp
qed

lemma getResolution_reads:
  "reads_with_Getenv getResolution ''DISPLAY''"
  "reads_with_Getenv getResolution ''WAYLAND_DISPLAY''"
proof -
  show "reads_with_Getenv getResolution ''DISPLAY''"
    by (rule reads_with_GetenvI [where w = xrandr_world and v = "'':0''"]) code_simp
  show "reads_with_Getenv getResolution ''WAYLAND_DISPLAY''"
    by (rule reads_with_GetenvI [where w = bare_world and v = "''wayland-0''"]) code_simp
qed

lemma getWindowManager_reads:
  "reads_with_Getenv getWindowManager ''WAYLAND_DISPLAY''"
  "reads_with_Getenv getWindowManager ''XDG_SESSION_TYPE''"
  "reads_with_Getenv getWindowManager ''XDG_CURRENT_DESKTOP''"
  "reads_with_Getenv getWindowManager ''DESKTOP_SESSION''"
proof -
  show "reads_with_Getenv getWindowManager ''WAYLAND_DISPLAY''"
    by (rule reads_with_GetenvI [where w = wayland_world and v = "''''"]) code_simp
  show "reads_with_Getenv getWindowManager ''XDG_SESSION_TYPE''"
    by (rule reads_with_GetenvI [where w = wayland_world and v = "''''"]) code_simp
  show "reads_with_Getenv getWindowManager ''XDG_CURRENT_DESKTOP''"
    by (rule reads_with_GetenvI [where w = wayland_world and v = "''GNOME''"]) code_simp
  show "reads_with_Getenv getWindowManager ''DESKTOP_SESSION''"
    by (rule reads_with_GetenvI [where w = bare_world and v = "''gnome''"]) code_simp
qed

lemma getDesktopEnvironment_reads:
  "reads_with_Getenv getDesktopEnvironment ''XDG_CURRENT_DESKTOP''"
  "reads_with_Getenv getDesktopEnvironment ''DESKTOP_SESSION''"
proof -
  show "reads_with_Getenv getDesktopEnvironment ''XDG_CURRENT_DESKTOP''"
    by (rule reads_with_GetenvI [where w = bare_world and v = "''GNOME''"]) code_simp
  show "reads_with_Getenv getDesktopEnvironment ''DESKTOP_SESSION''"
    by (rule reads_with_GetenvI [where w = bare_world and v = "''gnome''"]) code_simp
qed

text \<open>
  Claim C6, as the code has it. The variables each probe reads with \<^verbatim>\<open>os.Getenv\<close>
  are exactly these: the shell probe \<open>SHELL\<close>, \<open>PSModulePath\<close>, \<open>ComSpec\<close> and
  \<open>WT_SESSION\<close>; the terminal probe \<open>TERM_PROGRAM\<close> and \<open>TERM\<close>; the locale probe
  \<open>LANG\<close> and \<open>LC_ALL\<close>; the resolution probe \<open>DISPLAY\<close> and \<open>WAYLAND_DISPLAY\<close>; the
  window-manager probe \<open>WAYLAND_DISPLAY\<close>, \<open>XDG_SESSION_TYPE\<close>, \<open>XDG_CURRENT_DESKTOP\<close>
  and \<open>DESKTOP_SESSION\<close>; the desktop-environment probe \<open>XDG_CURRENT_DESKTOP\<close> and
  \<open>DESKTOP_SESSION\<close>. No other probe reads a variable with \<^verbatim>\<open>os.Getenv\<close>. So
  \<open>WAYLAND_DISPLAY\<close>, \<open>XDG_CURRENT_DESKTOP\<close> and \<open>DESKTOP_SESSION\<close> have two readers
  each, and every other variable has one. What a variable changes through the commands
  that inherit it is not bounded by this.
\<close>

theorem environment_variables_read:
  "(reads_with_Getenv getShell n
      \<longleftrightarrow> n \<in> {''SHELL'', ''PSModulePath'', ''ComSpec'', ''WT_SESSION''}) \<and>
   (reads_with_Getenv getTerminal n \<longleftrightarrow> n \<in> {''TERM_PROGRAM'', ''TERM''}) \<and>
   (reads_with_Getenv getSystemLocale n \<longleftrightarrow> n \<in> {''LANG'', ''LC_ALL''}) \<and>
   (reads_with_Getenv getResolution n \<longleftrightarrow> n \<in> {''DISPLAY'', ''WAYLAND_DISPLAY''}) \<and>
   (reads_with_Getenv getWindowManager n
      \<longleftrightarrow> n \<in> {''WAYLAND_DISPLAY'', ''XDG_SESSION_TYPE'', ''XDG_CURRENT_DESKTOP'',
               ''DESKTOP_SESSION''}) \<and>
   (reads_with_Getenv getDesktopEnvironment n
      \<longleftrightarrow> n \<in> {''XDG_CURRENT_DESKTOP'', ''DESKTOP_SESSION''}) \<and>
   \<not> reads_with_Getenv getGPUInfo n \<and> \<not> reads_with_Getenv getDisk n \<and>
   \<not> reads_with_Getenv getIPAddress n \<and> \<not> reads_with_Getenv getGoVersion n \<and>
   \<not> reads_with_Getenv getVirtualization n \<and> \<not> reads_with_Getenv getOpenPorts n \<and>
   \<not> reads_with_Getenv getPackageCounts n \<and> \<not> reads_with_Getenv getInstalledLanguages n \<and>
   \<not> reads_with_Getenv getTemperatures n \<and> \<not> reads_with_Getenv gatherHostInfo n \<and>
   \<not> reads_with_Getenv (\<lambda>w. gatherCPUInfo w isFast) n \<and>
   \<not> reads_with_Getenv gatherMemoryInfo n"
proof -
  have sh: "reads_with_Getenv getShell n
      \<longleftrightarrow> n \<in> {''SHELL'', ''PSModulePath'', ''ComSpec'', ''WT_SESSION''}"
  proof
    assume "reads_with_Getenv getShell n"
    with getShell_same_but_Getenv
    show "n \<in> {''SHELL'', ''PSModulePath'', ''ComSpec'', ''WT_SESSION''}"
      by (rule reads_with_Getenv_only)
  next
    assume "n \<in> {''SHELL'', ''PSModulePath'', ''ComSpec'', ''WT_SESSION''}"
    then consider "n = ''SHELL''" | "n = ''PSModulePath''" | "n = ''ComSpec''"
      | "n = ''WT_SESSION''" by blast
    then show "reads_with_Getenv getShell n"
      by cases (simp_all only: getShell_reads)
  qed
  have te: "reads_with_Getenv getTerminal n \<longleftrightarrow> n \<in> {''TERM_PROGRAM'', ''TERM''}"
  proof
    assume "reads_with_Getenv getTerminal n"
    with getTerminal_same_but_Getenv show "n \<in> {''TERM_PROGRAM'', ''TERM''}"
      by (rule reads_with_Getenv_only)
  next
    assume "n \<in> {''TERM_PROGRAM'', ''TERM''}"
    then consider "n = ''TERM_PROGRAM''" | "n = ''TERM''" by blast
    then show "reads_with_Getenv getTerminal n"
      by cases (simp_all only: getTerminal_reads)
  qed
  have lo: "reads_with_Getenv getSystemLocale n \<longleftrightarrow> n \<in> {''LANG'', ''LC_ALL''}"
  proof
    assume "reads_with_Getenv getSystemLocale n"
    with getSystemLocale_same_but_Getenv show "n \<in> {''LANG'', ''LC_ALL''}"
      by (rule reads_with_Getenv_only)
  next
    assume "n \<in> {''LANG'', ''LC_ALL''}"
    then consider "n = ''LANG''" | "n = ''LC_ALL''" by blast
    then show "reads_with_Getenv getSystemLocale n"
      by cases (simp_all only: getSystemLocale_reads)
  qed
  have re: "reads_with_Getenv getResolution n \<longleftrightarrow> n \<in> {''DISPLAY'', ''WAYLAND_DISPLAY''}"
  proof
    assume "reads_with_Getenv getResolution n"
    with getResolution_same_but_Getenv show "n \<in> {''DISPLAY'', ''WAYLAND_DISPLAY''}"
      by (rule reads_with_Getenv_only)
  next
    assume "n \<in> {''DISPLAY'', ''WAYLAND_DISPLAY''}"
    then consider "n = ''DISPLAY''" | "n = ''WAYLAND_DISPLAY''" by blast
    then show "reads_with_Getenv getResolution n"
      by cases (simp_all only: getResolution_reads)
  qed
  have wm: "reads_with_Getenv getWindowManager n
      \<longleftrightarrow> n \<in> {''WAYLAND_DISPLAY'', ''XDG_SESSION_TYPE'', ''XDG_CURRENT_DESKTOP'',
               ''DESKTOP_SESSION''}"
  proof
    assume "reads_with_Getenv getWindowManager n"
    with getWindowManager_same_but_Getenv
    show "n \<in> {''WAYLAND_DISPLAY'', ''XDG_SESSION_TYPE'', ''XDG_CURRENT_DESKTOP'',
               ''DESKTOP_SESSION''}"
      by (rule reads_with_Getenv_only)
  next
    assume "n \<in> {''WAYLAND_DISPLAY'', ''XDG_SESSION_TYPE'', ''XDG_CURRENT_DESKTOP'',
               ''DESKTOP_SESSION''}"
    then consider "n = ''WAYLAND_DISPLAY''" | "n = ''XDG_SESSION_TYPE''"
      | "n = ''XDG_CURRENT_DESKTOP''" | "n = ''DESKTOP_SESSION''" by blast
    then show "reads_with_Getenv getWindowManager n"
      by cases (simp_all only: getWindowManager_reads)
  qed
  have de: "reads_with_Getenv getDesktopEnvironment n
      \<longleftrightarrow> n \<in> {''XDG_CURRENT_DESKTOP'', ''DESKTOP_SESSION''}"
  proof
    assume "reads_with_Getenv getDesktopEnvironment n"
    with getDesktopEnvironment_same_but_Getenv
    show "n \<in> {''XDG_CURRENT_DESKTOP'', ''DESKTOP_SESSION''}"
      by (rule reads_with_Getenv_only)
  next
    assume "n \<in> {''XDG_CURRENT_DESKTOP'', ''DESKTOP_SESSION''}"
    then consider "n = ''XDG_CURRENT_DESKTOP''" | "n = ''DESKTOP_SESSION''" by blast
    then show "reads_with_Getenv getDesktopEnvironment n"
      by cases (simp_all only: getDesktopEnvironment_reads)
  qed
  have others:
    "\<not> reads_with_Getenv getGPUInfo n" "\<not> reads_with_Getenv getDisk n"
    "\<not> reads_with_Getenv getIPAddress n" "\<not> reads_with_Getenv getGoVersion n"
    "\<not> reads_with_Getenv getVirtualization n" "\<not> reads_with_Getenv getOpenPorts n"
    "\<not> reads_with_Getenv getPackageCounts n" "\<not> reads_with_Getenv getInstalledLanguages n"
    "\<not> reads_with_Getenv getTemperatures n" "\<not> reads_with_Getenv gatherHostInfo n"
    "\<not> reads_with_Getenv (\<lambda>w. gatherCPUInfo w isFast) n"
    "\<not> reads_with_Getenv gatherMemoryInfo n"
    by (rule reads_with_Getenv_none, rule other_probes_env_update gatherHostInfo_env_update
        getPackageCounts_env_update)+
  show ?thesis
    by (intro conjI sh te lo re wm de others)
qed

theorem environment_variables_read_witness:
  "reads_with_Getenv getWindowManager ''DESKTOP_SESSION'' \<and>
   reads_with_Getenv getDesktopEnvironment ''DESKTOP_SESSION'' \<and>
   \<not> reads_with_Getenv getShell ''DESKTOP_SESSION'' \<and>
   \<not> reads_with_Getenv getResolution ''DESKTOP_SESSION'' \<and>
   \<not> reads_with_Getenv getPackageCounts ''DESKTOP_SESSION''"
proof -
  note t = environment_variables_read [where n = "''DESKTOP_SESSION''" and isFast = True]
  have sh: "\<not> reads_with_Getenv getShell ''DESKTOP_SESSION''"
    using t [THEN conjunct1] by simp
  have re: "\<not> reads_with_Getenv getResolution ''DESKTOP_SESSION''"
    using t [THEN conjunct2, THEN conjunct2, THEN conjunct2, THEN conjunct1] by simp
  have wm: "reads_with_Getenv getWindowManager ''DESKTOP_SESSION''"
    using t [THEN conjunct2, THEN conjunct2, THEN conjunct2, THEN conjunct2, THEN conjunct1]
    by simp
  have de: "reads_with_Getenv getDesktopEnvironment ''DESKTOP_SESSION''"
    using t [THEN conjunct2, THEN conjunct2, THEN conjunct2, THEN conjunct2, THEN conjunct2,
      THEN conjunct1]
    by simp
  have pk: "\<not> reads_with_Getenv getPackageCounts ''DESKTOP_SESSION''"
    using t [THEN conjunct2, THEN conjunct2, THEN conjunct2, THEN conjunct2, THEN conjunct2,
      THEN conjunct2, THEN conjunct2, THEN conjunct2, THEN conjunct2, THEN conjunct2,
      THEN conjunct2, THEN conjunct2, THEN conjunct1]
    by simp
  show ?thesis by (intro conjI wm de sh re pk)
qed

text \<open>
  The claim as stated fails: \<open>bare_world\<close> and \<open>gnome_session_world\<close> differ in
  \<open>DESKTOP_SESSION\<close> alone, and both the window-manager probe and the
  desktop-environment probe return different values on them.
\<close>

theorem DESKTOP_SESSION_two_readers_counterexample:
  "same_but_Getenv bare_world gnome_session_world \<and>
   Getenv gnome_session_world = (Getenv bare_world)(''DESKTOP_SESSION'' := ''gnome'') \<and>
   getWindowManager bare_world = Inr ''Unknown (X11?)'' \<and>
   getWindowManager gnome_session_world = Inr ''Mutter (X11)'' \<and>
   getDesktopEnvironment bare_world = [] \<and>
   getDesktopEnvironment gnome_session_world = ''Gnome''"
proof -
  have a: "same_but_Getenv bare_world gnome_session_world"
    unfolding same_but_Getenv_def gnome_session_world_def by (simp only: env_update_simps)
  have b: "Getenv gnome_session_world = (Getenv bare_world)(''DESKTOP_SESSION'' := ''gnome'')"
    unfolding gnome_session_world_def by (rule env_update_simps(1))
  have c: "getWindowManager bare_world = Inr ''Unknown (X11?)''" by code_simp
  have d: "getWindowManager gnome_session_world = Inr ''Mutter (X11)''" by code_simp
  have e: "getDesktopEnvironment bare_world = []" by code_simp
  have f: "getDesktopEnvironment gnome_session_world = ''Gnome''" by code_simp
  show ?thesis by (intro conjI a b c d e f)
qed

subsection \<open>Mode selection on the command line\<close>

lemma classify_fast: "s \<in> fast_tokens \<Longrightarrow> classify s = Flag ''fast'' None \<or> classify s = Flag ''f'' None"
  by (auto simp: fast_tokens_def classify_def)

lemma classify_help: "s \<in> help_tokens \<Longrightarrow> classify s = Flag ''help'' None \<or> classify s = Flag ''h'' None"
  by (auto simp: help_tokens_def classify_def)

lemma parse_fast_prefix:
  "set pre \<subseteq> fast_tokens \<Longrightarrow> pre \<noteq> [] \<Longrightarrow> parse_args b (pre @ rest) = parse_args True rest"
proof (induction pre arbitrary: b)
  case Nil
  then show ?case by simp
next
  case (Cons s pre)
  from Cons.prems have s: "classify s = Flag ''fast'' None \<or> classify s = Flag ''f'' None"
    by (intro classify_fast) simp
  show ?case
  proof (cases "pre = []")
    case True
    with s show ?thesis by auto
  next
    case False
    with Cons have "parse_args True (pre @ rest) = parse_args True rest" by simp
    with s show ?thesis by auto
  qed
qed

lemma parse_fast_prefix':
  "set pre \<subseteq> fast_tokens \<Longrightarrow> parse_args False (pre @ rest) = parse_args (pre \<noteq> []) rest"
  using parse_fast_prefix [of pre False rest] by (cases "pre = []") simp_all

text \<open>
  Claim C8. A command line of \<open>--fast\<close> or \<open>-f\<close> (with one or two dashes, once or
  several times) collects in fast mode and displays with the fast theme; the empty command
  line collects in comprehensive mode; a help flag, \<open>--help\<close> or \<open>-h\<close>, prints the usage and
  exits with code 0 and nothing is collected; and a flag of any other name is refused, with
  exit code 2 and nothing collected, so that \<open>fast\<close>, \<open>f\<close> and the help flag are the only
  flags.
\<close>

theorem mode_selection:
  "(args \<noteq> [] \<and> set args \<subseteq> fast_tokens \<longrightarrow>
      main w args = (case GetSystemInfo w True of
                       Inl p \<Rightarrow> Panicked p | Inr info \<Rightarrow> Displayed True FastTheme info)) \<and>
   main w [] = (case GetSystemInfo w False of
                  Inl p \<Rightarrow> Panicked p | Inr info \<Rightarrow> Displayed False NormalTheme info) \<and>
   (set pre \<subseteq> fast_tokens \<and> h \<in> help_tokens \<longrightarrow> main w (pre @ h # rest) = UsageExit 0) \<and>
   (set pre \<subseteq> fast_tokens \<and> classify s = Flag name val \<and>
    name \<notin> {''fast'', ''f'', ''help'', ''h''} \<longrightarrow> main w (pre @ s # rest) = UsageExit 2)"
proof -
  have a: "args \<noteq> [] \<and> set args \<subseteq> fast_tokens \<longrightarrow>
      main w args = (case GetSystemInfo w True of
                       Inl p \<Rightarrow> Panicked p | Inr info \<Rightarrow> Displayed True FastTheme info)"
    using parse_fast_prefix' [of args "[]"] by (auto simp: main_def)
  have b: "main w [] = (case GetSystemInfo w False of
                  Inl p \<Rightarrow> Panicked p | Inr info \<Rightarrow> Displayed False NormalTheme info)"
    by (simp add: main_def)
  have c: "set pre \<subseteq> fast_tokens \<and> h \<in> help_tokens \<longrightarrow> main w (pre @ h # rest) = UsageExit 0"
    using classify_help [of h] by (auto simp: main_def parse_fast_prefix')
  have d: "set pre \<subseteq> fast_tokens \<and> classify s = Flag name val \<and>
    name \<notin> {''fast'', ''f'', ''help'', ''h''} \<longrightarrow> main w (pre @ s # rest) = UsageExit 2"
    by (auto simp: main_def parse_fast_prefix')
  from a b c d show ?thesis by blast
qed

theorem mode_selection_witness:
  "[''--fast''] \<noteq> [] \<and> set [''--fast''] \<subseteq> fast_tokens \<and>
   main desk_world [''--fast''] = Displayed True FastTheme desk_fast_snapshot \<and>
   main desk_world [''-f'', ''-h'', ''x''] = UsageExit 0 \<and>
   main desk_world [''--verbose''] = UsageExit 2"
proof -
  have g: "GetSystemInfo desk_world True = Inr desk_fast_snapshot" by code_simp
  have f1: "[''--fast''] \<noteq> [] \<and> set [''--fast''] \<subseteq> fast_tokens"
    by (simp add: fast_tokens_def)
  have f2: "set [''-f''] \<subseteq> fast_tokens \<and> ''-h'' \<in> help_tokens"
    by (simp add: fast_tokens_def help_tokens_def)
  have f3: "set [] \<subseteq> fast_tokens \<and> classify ''--verbose'' = Flag ''verbose'' None \<and>
      ''verbose'' \<notin> {''fast'', ''f'', ''help'', ''h''}"
    by (simp add: classify_def)
  note t1 = mode_selection [where args = "[''--fast'']" and w = desk_world,
      THEN conjunct1, THEN mp, OF f1]
  note t2 = mode_selection [where w = desk_world and pre = "[''-f'']" and h = "''-h''"
        and rest = "[''x'']",
      THEN conjunct2, THEN conjunct2, THEN conjunct1, THEN mp, OF f2]
  note t3 = mode_selection [where w = desk_world and pre = "[]" and s = "''--verbose''"
        and name = "''verbose''" and val = None and rest = "[]",
      THEN conjunct2, THEN conjunct2, THEN conjunct2, THEN mp, OF f3]
  have "main desk_world [''--fast''] = Displayed True FastTheme desk_fast_snapshot"
    using t1 by (simp add: g)
  moreover have "main desk_world [''-f'', ''-h'', ''x''] = UsageExit 0"
    using t2 by simp
  moreover have "main desk_world [''--verbose''] = UsageExit 2"
    using t3 by simp
  ultimately show ?thesis using f1 by blast
qed

text \<open>
  A flag given with the value false leaves the mode comprehensive, and flags after the first
  argument that is not a flag are not parsed.
\<close>

lemma main_explicit_false:
  "parse_args False [''--fast=false''] = Flags False"
  "parse_args False [''now'', ''--fast''] = Flags False"
  by code_simp+

end
